theory Spec2Isabelle
  imports Complex_Main "HOL-Library.Sublist"
begin

section \<open>Errors, observable events and asynchronous computations\<close>

text \<open>
  The action is two asynchronous functions (\<open>main\<close> and \<open>post\<close>) handed to
  \<open>actionsToolkit.run\<close>; they talk to the outside world through shell commands, HTTP
  requests, the Actions toolkit and \<open>process.env\<close>.  An \<open>await\<close>ed call either resolves
  with a value or rejects with an error.  Errors thrown by the source itself are the first
  constructors of \<open>error\<close>; \<open>External\<close> is a rejection coming from a collaborator
  (axios, child_process, the docker toolkit, the JavaScript runtime), carrying its message.
\<close>

datatype error =
    EnvVarNotSet string
  | MaxRetriesExceeded
  | FailedToGetInstance
  | FailedToParseDiskSize
  | CannotBuildFromSource
  | CannotSetDefaultBuilder
  | BuildkitdStartError string
  | BuildkitdPidError string
  | StderrError string
  | External string

text \<open>The message of each error, as the source builds it.\<close>

fun message :: "error \<Rightarrow> string" where
  "message (EnvVarNotSet name) = ''Environment variable '' @ name @ '' is not set.''"
| "message MaxRetriesExceeded = ''Maximum number of retries exceeded''"
| "message FailedToGetInstance = ''Failed to get EC2 instance within 60 seconds''"
| "message FailedToParseDiskSize = ''Failed to parse disk size''"
| "message CannotBuildFromSource = ''Cannot build from source without the Docker CLI''"
| "message CannotSetDefaultBuilder =
     ''Cannot set buildx as default builder without the Docker CLI''"
| "message (BuildkitdStartError err) = ''error starting buildkitd service: '' @ err"
| "message (BuildkitdPidError err) = ''error finding buildkitd PID: '' @ err"
| "message (StderrError m) = m"
| "message (External m) = m"

datatype level = Debug | Info | Warning | Error | Console

text \<open>
  What a run does to the outside world, in order.  \<open>Log\<close> is a call of \<open>core.debug\<close>,
  \<open>core.info\<close>, \<open>core.warning\<close>, \<open>core.error\<close> or (level \<open>Console\<close>)
  \<open>console.error\<close> with its first argument;
  \<open>Sleep\<close> a wait on a \<open>setTimeout\<close> timer, with the milliseconds the timer is set
  to; \<open>Shell\<close> an \<open>execAsync\<close> command line;
  \<open>Spawn\<close> a fire-and-forget \<open>exec\<close>; \<open>Exec\<close> a call of \<open>Exec.getExecOutput\<close>;
  \<open>SaveState\<close> a call of \<open>core.saveState\<close> with the value as it is written out;
  \<open>Took\<close> the milliseconds that passed until the HTTP request before it settled;
  \<open>Call\<close> names a call into the toolkit, the runtime or the file system.
\<close>

datatype event =
    Log level string
  | Sleep nat
  | Shell string
  | Spawn string
  | Exec string "string list"
  | HttpPut string
  | HttpGet string
  | HttpPost string
  | Took nat
  | SaveState string string
  | Call string "string list"

text \<open>
  An asynchronous computation is modelled by the events it causes and its outcome:
  \<open>Inl e\<close> when the promise rejects (an exception propagates), \<open>Inr x\<close> when it
  resolves with \<open>x\<close>.
\<close>

type_synonym 'a io = "event list \<times> (error + 'a)"

definition return_io :: "'a \<Rightarrow> 'a io" where
  "return_io x = ([], Inr x)"

definition throw_io :: "error \<Rightarrow> 'a io" where
  "throw_io e = ([], Inl e)"

definition emit :: "event \<Rightarrow> unit io" where
  "emit ev = ([ev], Inr ())"

text \<open>\<open>await_io ev r\<close>: issue the request \<open>ev\<close> and await the outcome \<open>r\<close> the world gives.\<close>

definition await_io :: "event \<Rightarrow> error + 'a \<Rightarrow> 'a io" where
  "await_io ev r = ([ev], r)"

text \<open>Events \<open>tr\<close> happened before the computation \<open>m\<close> ran.\<close>

definition after :: "event list \<Rightarrow> 'a io \<Rightarrow> 'a io" where
  "after tr m = (tr @ fst m, snd m)"

text \<open>Sequencing: the continuation runs only if the first computation resolved.\<close>

definition bind_io :: "'a io \<Rightarrow> ('a \<Rightarrow> 'b io) \<Rightarrow> 'b io" where
  "bind_io m f = (case snd m of Inl e \<Rightarrow> (fst m, Inl e) | Inr x \<Rightarrow> after (fst m) (f x))"

definition then_io :: "unit io \<Rightarrow> 'b io \<Rightarrow> 'b io" where
  "then_io m k = bind_io m (\<lambda>_. k)"

text \<open>\<open>try { m } catch (error) { h error }\<close>.\<close>

definition catch_io :: "'a io \<Rightarrow> (error \<Rightarrow> 'a io) \<Rightarrow> 'a io" where
  "catch_io m h = (case snd m of Inl e \<Rightarrow> after (fst m) (h e) | Inr x \<Rightarrow> m)"

text \<open>A block of statements, run in order until one throws.\<close>

fun seq_io :: "unit io list \<Rightarrow> unit io" where
  "seq_io [] = return_io ()"
| "seq_io (m # ms) = then_io m (seq_io ms)"

definition when_io :: "bool \<Rightarrow> unit io \<Rightarrow> unit io" where
  "when_io c m = (if c then m else return_io ())"

text \<open>\<open>`${error}`\<close> for an \<open>Error\<close> object.\<close>

definition show_error :: "error \<Rightarrow> string" where
  "show_error e = ''Error: '' @ message e"

section \<open>The bounded retry combinator\<close>

text \<open>\<open>s.includes(t)\<close>: \<open>t\<close> occurs in \<open>s\<close> as a contiguous substring.\<close>

fun js_includes :: "string \<Rightarrow> string \<Rightarrow> bool" where
  "js_includes [] t = (t = [])"
| "js_includes (c # cs) t = (prefix t (c # cs) \<or> js_includes cs t)"

text \<open>The test \<open>result && !result.includes("Resource not found")\<close>; a string is
  truthy when it is not empty.\<close>

definition accepted :: "string \<Rightarrow> bool" where
  "accepted result = (result \<noteq> [] \<and> \<not> js_includes result ''Resource not found'')"

text \<open>
  One pass through the \<open>try\<close>/\<open>catch\<close> of \<open>retryCommand\<close>: \<open>Some result\<close> when the
  function returns \<open>result\<close>, \<open>None\<close> when control falls through to the sleep.  The
  result is returned when it is truthy (a non-empty string) and does not include
  \<open>Resource not found\<close>; a rejection of the command is logged and swallowed.
\<close>

definition retry_attempt :: "string io \<Rightarrow> event list \<times> string option" where
  "retry_attempt c =
     (case snd c of
        Inr result \<Rightarrow>
          if accepted result
          then (fst c @ [Log Debug (''Command result: '' @ result)], Some result)
          else (fst c, None)
      | Inl err \<Rightarrow> (fst c @ [Log Debug (''Command failed: '' @ show_error err)], None))"

text \<open>
  \<open>setTimeout(callback, delay)\<close> of Node.js, whose documentation says: when the delay
  is larger than 2147483647 or less than 1, the delay is set to 1; a delay that is not
  an integer is truncated to an integer.  \<open>timeout_ms delay\<close> is the number of
  milliseconds the timer is set to.  A JavaScript number is taken as the real number it
  stands for; \<open>NaN\<close> and the infinities (for which the timer is set to 1 as well) are
  not values of this type.
\<close>

definition TIMEOUT_MAX :: real where
  "TIMEOUT_MAX = 2147483647"

definition timeout_ms :: "real \<Rightarrow> nat" where
  "timeout_ms delay = (if 1 \<le> delay \<and> delay \<le> TIMEOUT_MAX then nat \<lfloor>delay\<rfloor> else 1)"

text \<open>
  The \<open>while (true)\<close> loop of \<open>retryCommand\<close>, entered with the counter at
  \<open>retryAttempts\<close>.  \<open>command i\<close> is what the \<open>i\<close>-th call of the command does (the
  loop calls it once per pass, so the pass with counter \<open>i\<close> makes call \<open>i\<close>).
  \<open>sleepTime\<close> is a number of seconds, whole or not, of either sign; the loop hands
  \<open>sleepTime * 1000\<close> to \<open>setTimeout\<close> and waits for the timer.  The product is the
  exact one: the rounding of the multiplication in double precision is not modelled.
\<close>

function retryCommand_loop :: "nat \<Rightarrow> real \<Rightarrow> (nat \<Rightarrow> string io) \<Rightarrow> string io" where
  "retryCommand_loop retryAttempts sleepTime command =
     (if retryAttempts > 10 then throw_io MaxRetriesExceeded
      else case retry_attempt (command retryAttempts) of
             (tr, Some result) \<Rightarrow> (tr, Inr result)
           | (tr, None) \<Rightarrow>
               after (tr @ [Sleep (timeout_ms (sleepTime * 1000))])
                 (retryCommand_loop (Suc retryAttempts) sleepTime command))"
  by pat_completeness auto
termination
  by (relation "measure (\<lambda>(retryAttempts, sleepTime, command). 11 - retryAttempts)") auto

definition retryCommand :: "real \<Rightarrow> (nat \<Rightarrow> string io) \<Rightarrow> string io" where
  "retryCommand sleepTime command = retryCommand_loop 0 sleepTime command"

text \<open>A call whose result the loop does not return: a rejection, an empty string, or a
  string that includes the sentinel.\<close>

definition retryable :: "string io \<Rightarrow> bool" where
  "retryable c = (snd (retry_attempt c) = None)"


section \<open>Cross-phase state: state-helper\<close>

text \<open>
  The setters of state-helper call \<open>core.saveState(name, value)\<close>; its exports read
  \<open>process.env['STATE_' + name]\<close> when the module is loaded.  The sources hold two
  versions of the module; they agree on the first eight keys, and the one with the four
  \<open>blacksmith\<close> keys of the spec's state record is modelled (the other has the single
  key \<open>blacksmithBuilderId\<close> in their place, written and read in the same way).
  The toolkit writes a string as it is and any other value through \<open>JSON.stringify\<close>.
\<close>

datatype jsval = JString string | JBool bool

fun toCommandValue :: "jsval \<Rightarrow> string" where
  "toCommandValue (JString s) = s"
| "toCommandValue (JBool b) = (if b then ''true'' else ''false'')"

definition saveState :: "string \<Rightarrow> jsval \<Rightarrow> unit io" where
  "saveState name val = emit (SaveState name (toCommandValue val))"

definition setDebug :: "string \<Rightarrow> unit io" where
  "setDebug debug = saveState ''isDebug'' (JString debug)"

definition setStandalone :: "bool \<Rightarrow> unit io" where
  "setStandalone standalone' = saveState ''standalone'' (JBool standalone')"

definition setBuilderName :: "string \<Rightarrow> unit io" where
  "setBuilderName builderName' = saveState ''builderName'' (JString builderName')"

definition setBuilderDriver :: "string \<Rightarrow> unit io" where
  "setBuilderDriver builderDriver' = saveState ''builderDriver'' (JString builderDriver')"

definition setContainerName :: "string \<Rightarrow> unit io" where
  "setContainerName containerName' = saveState ''containerName'' (JString containerName')"

definition setCertsDir :: "string \<Rightarrow> unit io" where
  "setCertsDir certsDir' = saveState ''certsDir'' (JString certsDir')"

definition setCleanup :: "bool \<Rightarrow> unit io" where
  "setCleanup cleanup' = saveState ''cleanup'' (JBool cleanup')"

definition setStickyDisksEnabled :: "string \<Rightarrow> unit io" where
  "setStickyDisksEnabled isStickyDisksEnabled' =
     saveState ''isStickyDisksEnabled'' (JString isStickyDisksEnabled')"

definition setBlacksmithBuildTaskId :: "string \<Rightarrow> unit io" where
  "setBlacksmithBuildTaskId blacksmithBuildTaskId' =
     saveState ''blacksmithBuildTaskId'' (JString blacksmithBuildTaskId')"

definition setBlacksmithClientKey :: "string \<Rightarrow> unit io" where
  "setBlacksmithClientKey blacksmithClientKey' =
     saveState ''blacksmithClientKey'' (JString blacksmithClientKey')"

definition setBlacksmithClientCaCertificate :: "string \<Rightarrow> unit io" where
  "setBlacksmithClientCaCertificate blacksmithClientCaCertificate' =
     saveState ''blacksmithClientCaCertificate'' (JString blacksmithClientCaCertificate')"

definition setBlacksmithRootCaCertificate :: "string \<Rightarrow> unit io" where
  "setBlacksmithRootCaCertificate blacksmithRootCaCertificate' =
     saveState ''blacksmithRootCaCertificate'' (JString blacksmithRootCaCertificate')"

text \<open>
  Modelled from the spec: the state store behind \<open>core.saveState\<close> (the Actions toolkit
  and runner, which are not part of the repository).  A write is durable, a later write
  to a key replaces an earlier one, and a later phase of the same job run reads the last
  value written; the runner hands it over as the environment variable \<open>STATE_\<close> followed
  by the name.  \<open>saved_env e tr\<close> is the environment \<open>e\<close> with the saves of the trace
  \<open>tr\<close> applied in order.
\<close>

fun record_event :: "(string \<rightharpoonup> string) \<Rightarrow> event \<Rightarrow> (string \<rightharpoonup> string)" where
  "record_event e (SaveState name v) = e(''STATE_'' @ name \<mapsto> v)"
| "record_event e _ = e"

definition saved_env :: "(string \<rightharpoonup> string) \<Rightarrow> event list \<Rightarrow> (string \<rightharpoonup> string)" where
  "saved_env e tr = foldl record_event e tr"

text \<open>\<open>!!process.env[k]\<close>: false for an unset variable and for the empty string.\<close>

definition truthy :: "string option \<Rightarrow> bool" where
  "truthy v = (case v of None \<Rightarrow> False | Some s \<Rightarrow> s \<noteq> [])"

text \<open>\<open>process.env[k] || ''\<close>.\<close>

definition or_empty :: "string option \<Rightarrow> string" where
  "or_empty v = (case v of None \<Rightarrow> [] | Some s \<Rightarrow> s)"

text \<open>\<open>/true/i.test(s)\<close>: the letters t, r, u, e in either case occur in a row.\<close>

fun test_true_i :: "string \<Rightarrow> bool" where
  "test_true_i (a # b # c # d # rest) =
     ((a \<in> {CHR ''t'', CHR ''T''} \<and> b \<in> {CHR ''r'', CHR ''R''} \<and>
       c \<in> {CHR ''u'', CHR ''U''} \<and> d \<in> {CHR ''e'', CHR ''E''})
      \<or> test_true_i (b # c # d # rest))"
| "test_true_i _ = False"

text \<open>The module-level exports of state-helper, computed once when the module is loaded.\<close>

record state_helper =
  IsDebug :: bool
  standalone :: bool
  builderName :: string
  builderDriver :: string
  containerName :: string
  certsDir :: string
  cleanup :: bool
  isStickyDisksEnabled :: bool
  blacksmithBuildTaskId :: string
  blacksmithClientKey :: string
  blacksmithClientCaCertificate :: string
  blacksmithRootCaCertificate :: string

definition stateHelper :: "(string \<rightharpoonup> string) \<Rightarrow> state_helper" where
  "stateHelper e =
     \<lparr> IsDebug = truthy (e ''STATE_isDebug''),
       standalone = test_true_i (or_empty (e ''STATE_standalone'')),
       builderName = or_empty (e ''STATE_builderName''),
       builderDriver = or_empty (e ''STATE_builderDriver''),
       containerName = or_empty (e ''STATE_containerName''),
       certsDir = or_empty (e ''STATE_certsDir''),
       cleanup = test_true_i (or_empty (e ''STATE_cleanup'')),
       isStickyDisksEnabled = truthy (e ''STATE_isStickyDisksEnabled''),
       blacksmithBuildTaskId = or_empty (e ''STATE_blacksmithBuildTaskId''),
       blacksmithClientKey = or_empty (e ''STATE_blacksmithClientKey''),
       blacksmithClientCaCertificate = or_empty (e ''STATE_blacksmithClientCaCertificate''),
       blacksmithRootCaCertificate = or_empty (e ''STATE_blacksmithRootCaCertificate'') \<rparr>"

text \<open>
  The keys of the state record, with the setter that writes each and the export that
  reads it, as values of JavaScript.
\<close>

datatype key =
    K_isDebug | K_standalone | K_builderName | K_builderDriver | K_containerName
  | K_certsDir | K_cleanup | K_isStickyDisksEnabled | K_blacksmithBuildTaskId
  | K_blacksmithClientKey | K_blacksmithClientCaCertificate | K_blacksmithRootCaCertificate

fun key_name :: "key \<Rightarrow> string" where
  "key_name K_isDebug = ''isDebug''"
| "key_name K_standalone = ''standalone''"
| "key_name K_builderName = ''builderName''"
| "key_name K_builderDriver = ''builderDriver''"
| "key_name K_containerName = ''containerName''"
| "key_name K_certsDir = ''certsDir''"
| "key_name K_cleanup = ''cleanup''"
| "key_name K_isStickyDisksEnabled = ''isStickyDisksEnabled''"
| "key_name K_blacksmithBuildTaskId = ''blacksmithBuildTaskId''"
| "key_name K_blacksmithClientKey = ''blacksmithClientKey''"
| "key_name K_blacksmithClientCaCertificate = ''blacksmithClientCaCertificate''"
| "key_name K_blacksmithRootCaCertificate = ''blacksmithRootCaCertificate''"

text \<open>\<open>set(k, v)\<close> is the call of the setter of the key.  The setters are typed: the
  compiler rejects a call with a value of the other type, which therefore does nothing
  here.\<close>

fun set_key :: "key \<Rightarrow> jsval \<Rightarrow> unit io" where
  "set_key K_isDebug (JString s) = setDebug s"
| "set_key K_standalone (JBool b) = setStandalone b"
| "set_key K_builderName (JString s) = setBuilderName s"
| "set_key K_builderDriver (JString s) = setBuilderDriver s"
| "set_key K_containerName (JString s) = setContainerName s"
| "set_key K_certsDir (JString s) = setCertsDir s"
| "set_key K_cleanup (JBool b) = setCleanup b"
| "set_key K_isStickyDisksEnabled (JString s) = setStickyDisksEnabled s"
| "set_key K_blacksmithBuildTaskId (JString s) = setBlacksmithBuildTaskId s"
| "set_key K_blacksmithClientKey (JString s) = setBlacksmithClientKey s"
| "set_key K_blacksmithClientCaCertificate (JString s) = setBlacksmithClientCaCertificate s"
| "set_key K_blacksmithRootCaCertificate (JString s) = setBlacksmithRootCaCertificate s"
| "set_key _ _ = return_io ()"

fun get_key :: "key \<Rightarrow> state_helper \<Rightarrow> jsval" where
  "get_key K_isDebug sh = JBool (IsDebug sh)"
| "get_key K_standalone sh = JBool (standalone sh)"
| "get_key K_builderName sh = JString (builderName sh)"
| "get_key K_builderDriver sh = JString (builderDriver sh)"
| "get_key K_containerName sh = JString (containerName sh)"
| "get_key K_certsDir sh = JString (certsDir sh)"
| "get_key K_cleanup sh = JBool (cleanup sh)"
| "get_key K_isStickyDisksEnabled sh = JBool (isStickyDisksEnabled sh)"
| "get_key K_blacksmithBuildTaskId sh = JString (blacksmithBuildTaskId sh)"
| "get_key K_blacksmithClientKey sh = JString (blacksmithClientKey sh)"
| "get_key K_blacksmithClientCaCertificate sh = JString (blacksmithClientCaCertificate sh)"
| "get_key K_blacksmithRootCaCertificate sh = JString (blacksmithRootCaCertificate sh)"

text \<open>The type of value the setter of a key takes: a boolean for \<open>standalone\<close> and
  \<open>cleanup\<close>, a string for every other key.\<close>

definition boolean_key :: "key \<Rightarrow> bool" where
  "boolean_key k = (k = K_standalone \<or> k = K_cleanup)"

fun well_typed :: "key \<Rightarrow> jsval \<Rightarrow> bool" where
  "well_typed k (JBool _) = boolean_key k"
| "well_typed k (JString _) = (\<not> boolean_key k)"

text \<open>What the finalization phase reads for a key after \<open>set(k, v)\<close>: the value itself,
  except for the two flags that are saved as strings and read back as booleans.\<close>

fun read_back :: "key \<Rightarrow> jsval \<Rightarrow> jsval" where
  "read_back K_isDebug v = JBool (toCommandValue v \<noteq> [])"
| "read_back K_isStickyDisksEnabled v = JBool (toCommandValue v \<noteq> [])"
| "read_back _ v = v"

section \<open>The outside world\<close>

text \<open>
  Everything the action asks of its environment is a field of \<open>world\<close>: the answer is
  fixed by the world, the action only decides which questions it asks and in which order.
  \<open>create_task\<close> is the reply to the request that creates the build task,
  \<open>task_status url i\<close> the reply to the \<open>i\<close>-th \<open>GET\<close> of \<open>url\<close>, and \<open>http_post url\<close>
  the reply of whoever is reached at \<open>url\<close> to any other \<open>POST\<close>.
  An answer of type \<open>error + 'a\<close> is the settlement of the awaited promise.  A command
  line, a path or a URL identifies the request; requests that are repeated (the metadata
  service, the task status) are also indexed by how many were made before.
\<close>

record exec_output =
  exitCode :: int
  stdout :: string
  stderr :: string

text \<open>A response body: a string, or structured data with its \<open>JSON.stringify\<close> text.\<close>

datatype body = Text string | Structured string

text \<open>The inputs of the action as \<open>context.getInputs\<close> returns them (the context
  module is not among the sources; only the fields \<open>main\<close> reads are kept).\<close>

record inputs =
  inputs_version :: string
  inputs_name :: string
  inputs_install :: bool
  inputs_cacheBinary :: bool
  inputs_cleanup :: bool

record node =
  node_name :: string
  node_buildkitd_flags :: "string option"

record builder_info =
  info_driver :: string
  info_nodes :: "node list"

text \<open>An HTTP exchange through the axios client: how many milliseconds pass until the
  request settles, and how it settles.\<close>

type_synonym 'a reply = "nat \<times> (error + 'a)"

record task_data =
  task_id :: string
  client_key :: string
  client_ca_certificate :: string
  root_ca_certificate :: string

text \<open>The data of a status response: the \<open>instance_ip\<close> of \<open>ec2_instance\<close> when the
  field is present, and the JSON text of the whole.\<close>

record status_data =
  ec2_instance :: "string option"
  status_json :: string

record world =
  env :: "string \<rightharpoonup> string"
  shell :: "string \<Rightarrow> error + string \<times> string"
  exec :: "string \<Rightarrow> string list \<Rightarrow> error + exec_output"
  existsSync :: "string \<Rightarrow> bool"
  rmSync :: "string \<Rightarrow> error + unit"
  mkdirSync :: "string \<Rightarrow> error + unit"
  mmds_put :: "nat \<Rightarrow> error + string"
  mmds_get :: "string \<Rightarrow> nat \<Rightarrow> error + body"
  getPort :: "error + nat"
  parseInt :: "string \<Rightarrow> int option"
  toml_stringify :: "int \<Rightarrow> string"
  getInputs :: "error + inputs"
  isStandalone :: "error + bool"
  docker_info :: "error + unit"
  isValidRef :: "string \<Rightarrow> bool"
  isAvailable :: "error + bool"
  buildxInstall_build :: "error + string"
  buildxInstall_download :: "error + string"
  buildxInstall_install :: "error + unit"
  printVersion :: "error + unit"
  buildx_certsDir :: string
  containerNamePrefix :: string
  getCreateArgs :: "error + string list"
  getInspectArgs :: "error + string list"
  inspect :: "string \<Rightarrow> error + builder_info"
  getVersion :: "node \<Rightarrow> error + string"
  core_isDebug :: bool
  builder_exists :: "string \<Rightarrow> error + bool"
  create_task :: "task_data reply"
  task_status :: "string \<Rightarrow> nat \<Rightarrow> status_data reply"
  http_post :: "string \<Rightarrow> string reply"

text \<open>\<open>execAsync(cmd)\<close>: rejects when the command cannot run or exits with a code other
  than zero, and resolves with its output otherwise.\<close>

definition execAsync :: "world \<Rightarrow> string \<Rightarrow> (string \<times> string) io" where
  "execAsync w cmd = await_io (Shell cmd) (shell w cmd)"

text \<open>An awaited call whose value is not used.\<close>

definition ignore_io :: "'a io \<Rightarrow> unit io" where
  "ignore_io m = bind_io m (\<lambda>_. return_io ())"

subsection \<open>Text helpers\<close>

definition digit_char :: "nat \<Rightarrow> char" where
  "digit_char d = ''0123456789'' ! d"

function string_of_nat :: "nat \<Rightarrow> string" where
  "string_of_nat n =
     (if n < 10 then [digit_char n] else string_of_nat (n div 10) @ [digit_char (n mod 10)])"
  by pat_completeness auto
termination
  by (relation "measure id") auto

definition string_of_int :: "int \<Rightarrow> string" where
  "string_of_int i = (if i < 0 then ''-'' @ string_of_nat (nat (- i)) else string_of_nat (nat i))"

text \<open>White space and line ends, over ASCII.\<close>

definition is_space :: "char \<Rightarrow> bool" where
  "is_space c = (c \<in> {CHR '' '', CHR 0x09, CHR 0x0A, CHR 0x0B, CHR 0x0C, CHR 0x0D})"

definition is_newline :: "char \<Rightarrow> bool" where
  "is_newline c = (c \<in> {CHR 0x0A, CHR 0x0D})"

definition trim_end :: "string \<Rightarrow> string" where
  "trim_end s = rev (dropWhile is_space (rev s))"

definition trim :: "string \<Rightarrow> string" where
  "trim s = dropWhile is_space (trim_end s)"

text \<open>
  \<open>res.stderr.match(/(.*)\s*$/)?.[0]?.trim() ?? 'unknown error'\<close>.  The leftmost match
  of the pattern starts after the last line end that has something other than white space
  behind it, and runs to the end; the pattern matches the empty string at the end of any
  input, so the fallback is never taken.
\<close>

definition stderr_message :: "string \<Rightarrow> string" where
  "stderr_message s = trim (rev (takeWhile (\<lambda>c. \<not> is_newline c) (rev (trim_end s))))"

text \<open>\<open>Exec.getExecOutput(command, args, {ignoreReturnCode: true})\<close> followed by
  \<open>.then(res => ...)\<close>: the promise rejects only when the command cannot be started,
  the exit code alone never fails the call; what happens when the command wrote to
  stderr and exited with a code other than zero is up to the caller.\<close>

definition getExecOutput :: "world \<Rightarrow> string \<times> string list \<Rightarrow> exec_output io" where
  "getExecOutput w cmd = await_io (Exec (fst cmd) (snd cmd)) (exec w (fst cmd) (snd cmd))"

definition failed_output :: "exec_output \<Rightarrow> bool" where
  "failed_output res = (length (stderr res) > 0 \<and> exitCode res \<noteq> 0)"

definition exec_or_throw :: "world \<Rightarrow> string \<times> string list \<Rightarrow> unit io" where
  "exec_or_throw w cmd =
     bind_io (getExecOutput w cmd) (\<lambda>res.
       if failed_output res then throw_io (StderrError (stderr_message (stderr res)))
       else return_io ())"

definition exec_or_warn :: "world \<Rightarrow> string \<times> string list \<Rightarrow> unit io" where
  "exec_or_warn w cmd =
     bind_io (getExecOutput w cmd) (\<lambda>res.
       when_io (failed_output res) (emit (Log Warning (stderr_message (stderr res)))))"

text \<open>\<open>buildx.getCommand(args)\<close> of the docker toolkit: the buildx binary itself when
  there is no Docker CLI, the \<open>docker buildx\<close> plugin otherwise.\<close>

definition getCommand :: "bool \<Rightarrow> string list \<Rightarrow> string \<times> string list" where
  "getCommand standalone' args =
     (if standalone' then (''buildx'', args) else (''docker'', ''buildx'' # args))"

section \<open>main.ts: the sticky-disk variant\<close>

definition supportedDockerDriver :: string where
  "supportedDockerDriver = ''remote''"

definition mountPoint :: string where
  "mountPoint = ''/var/lib/buildkit''"

definition device :: string where
  "device = ''/dev/vdb''"

definition mmdsIPv4Addr :: string where
  "mmdsIPv4Addr = ''169.254.169.254''"

text \<open>\<open>!value\<close> holds for an unset variable and for the empty string.\<close>

definition getEnvVar :: "world \<Rightarrow> string \<Rightarrow> string io" where
  "getEnvVar w name =
     (case env w name of
        None \<Rightarrow> throw_io (EnvVarNotSet name)
      | Some v \<Rightarrow> if v = [] then throw_io (EnvVarNotSet name) else return_io v)"

text \<open>The child process is started and not awaited; what its callback logs later is not
  part of the trace.  The \<open>catch\<close> rethrows.\<close>

definition sendLoadStickyDisksRequest :: "world \<Rightarrow> unit io" where
  "sendLoadStickyDisksRequest w =
     catch_io
       (bind_io (getEnvVar w ''VSOCK_PORT'') (\<lambda>port.
          emit (Spawn (''echo \"load\" | socat -t=15 - VSOCK-CONNECT:2:'' @ port))))
       (\<lambda>error. throw_io error)"

text \<open>The \<open>i\<close>-th call of \<open>getMetadata(endpoint)\<close>.\<close>

definition getMetadata :: "world \<Rightarrow> string \<Rightarrow> nat \<Rightarrow> string io" where
  "getMetadata w endpoint i =
     catch_io
       (bind_io (await_io (HttpPut (''http://'' @ mmdsIPv4Addr @ ''/latest/api/token''))
                   (mmds_put w i)) (\<lambda>token.
        bind_io (await_io (HttpGet (''http://'' @ mmdsIPv4Addr @ ''/'' @ endpoint))
                   (mmds_get w endpoint i)) (\<lambda>d.
        return_io (case d of Text t \<Rightarrow> t | Structured j \<Rightarrow> j))))
       (\<lambda>error. then_io (emit (Log Debug (''error fetching metadata: '' @ show_error error)))
                  (throw_io error))"

definition checkBlockDevice :: "world \<Rightarrow> string \<Rightarrow> bool io" where
  "checkBlockDevice w dev =
     catch_io (bind_io (execAsync w (''lsblk '' @ dev)) (\<lambda>_. return_io True))
       (\<lambda>error. return_io False)"

definition shutdownBuildkitd :: "world \<Rightarrow> unit io" where
  "shutdownBuildkitd w =
     catch_io (ignore_io (execAsync w ''sudo pkill -TERM buildkitd''))
       (\<lambda>error. then_io (emit (Log Error ''error shutting down buildkitd process:''))
                  (throw_io error))"

definition installBuildkitd :: "world \<Rightarrow> unit io" where
  "installBuildkitd w =
     catch_io
       (seq_io
          [ignore_io (execAsync w (''sudo wget '' @
             ''https://github.com/moby/buildkit/releases/download/v0.13.2/buildkit-v0.13.2.linux-amd64.tar.gz'')),
           ignore_io (execAsync w (''sudo tar -xvf '' @ ''buildkit-v0.13.2.linux-amd64.tar.gz'')),
           ignore_io (execAsync w ''sudo mv bin/* /usr/local/bin/''),
           emit (Log Debug ''buildKit installed successfully'')])
       (\<lambda>error. then_io (emit (Log Error ''error installing BuildKit:'')) (throw_io error))"

text \<open>\<open>parseInt\<close> and the TOML serializer are library functions, taken from the world;
  \<open>parseInt\<close> answers \<open>None\<close> for \<open>NaN\<close>.\<close>

definition getDiskSize :: "world \<Rightarrow> string \<Rightarrow> int io" where
  "getDiskSize w dev =
     catch_io
       (bind_io (execAsync w (''sudo lsblk -b -n -o SIZE '' @ dev)) (\<lambda>out.
          case parseInt w (trim (fst out)) of
            None \<Rightarrow> throw_io FailedToParseDiskSize
          | Some sizeInBytes \<Rightarrow> return_io sizeInBytes))
       (\<lambda>error. then_io (emit (Log Console (''Error getting disk size: '' @ message error)))
                  (throw_io error))"

definition writeBuildkitdTomlFile :: "world \<Rightarrow> unit io" where
  "writeBuildkitdTomlFile w =
     bind_io (getDiskSize w device) (\<lambda>diskSize.
     then_io (emit (Log Info (''disk size is '' @ string_of_int diskSize)))
       (catch_io
          (seq_io
             [ignore_io (execAsync w ''sudo touch buildkitd.toml''),
              ignore_io (execAsync w ''sudo chmod 666 buildkitd.toml''),
              ignore_io (execAsync w
                (''echo \"'' @ toml_stringify w diskSize @ ''\" > buildkitd.toml'')),
              emit (Log Debug (''TOML configuration is '' @ toml_stringify w diskSize))])
          (\<lambda>err. then_io (emit (Log Warning ''error writing TOML configuration:''))
                   (throw_io err))))"

definition startBuildkitd :: "world \<Rightarrow> nat \<Rightarrow> string io" where
  "startBuildkitd w port =
     catch_io
       (then_io (writeBuildkitdTomlFile w)
          (bind_io (execAsync w
              (''sudo nohup buildkitd --addr '' @ (''tcp://0.0.0.0:'' @ string_of_nat port) @
               '' --allow-insecure-entitlement security.insecure --config=buildkitd.toml'' @
               '' --allow-insecure-entitlement network.host > buildkitd.log 2>&1 &''))
             (\<lambda>started.
                if snd started \<noteq> []
                then throw_io (BuildkitdStartError (snd started))
                else then_io
                  (emit (Log Debug (''buildkitd daemon started successfully '' @ fst started)))
                  (bind_io (execAsync w ''pgrep -f buildkitd'') (\<lambda>found.
                     if snd found \<noteq> []
                     then throw_io (BuildkitdPidError (snd found))
                     else return_io (''tcp://0.0.0.0:'' @ string_of_nat port))))))
       (\<lambda>error. then_io (emit (Log Error ''failed to start buildkitd daemon:''))
                  (throw_io error))"

definition findPort :: "world \<Rightarrow> nat io" where
  "findPort w =
     (case getPort w of
        Inl error \<Rightarrow> ([Call ''portfinder.getPort'' [''49152'', ''65535''],
                       Log Console (''error finding port: '' @ message error)], Inl error)
      | Inr port \<Rightarrow> ([Call ''portfinder.getPort'' [''49152'', ''65535'']], Inr port))"

text \<open>
  The first \<open>try\<close> block of \<open>main\<close>: ask for the sticky disk to be loaded and poll the
  metadata service for the answer.  The value is the local \<open>isStickyDisksEnabled\<close>.
  Any error ends as a warning.
\<close>

definition loadStickyDisks :: "world \<Rightarrow> bool io" where
  "loadStickyDisks w =
     catch_io
       (then_io (sendLoadStickyDisksRequest w)
          (bind_io (retryCommand 1 (getMetadata w ''sticky_disk_loaded''))
             (\<lambda>stickyDiskIsLoaded. return_io (stickyDiskIsLoaded = ''true''))))
       (\<lambda>error.
          then_io (emit (Log Warning
                     (''error fetching sticky disks metadata: '' @ show_error error)))
            (return_io False))"

text \<open>The second \<open>try\<close> block: record the flag, then create the mount point and mount.\<close>

definition mountStickyDisks :: "world \<Rightarrow> bool \<Rightarrow> unit io" where
  "mountStickyDisks w enabled =
     catch_io
       (bind_io (checkBlockDevice w device) (\<lambda>blockDeviceIsPresent.
          when_io (enabled \<and> blockDeviceIsPresent)
            (seq_io
               [setStickyDisksEnabled ''true'',
                ignore_io (execAsync w (''sudo mkdir -p '' @ mountPoint)),
                ignore_io (execAsync w (''sudo mount '' @ device @ '' '' @ mountPoint)),
                emit (Log Debug (device @ '' has been mounted to '' @ mountPoint))])))
       (\<lambda>error. emit (Log Warning ''error setting up sticky disks:''))"

subsection \<open>Setting up the builder\<close>

text \<open>
  From \<open>context.getInputs()\<close> to the end of \<open>main\<close>; both variants share this code.
  \<open>core.setOutput\<close>, the \<open>core.group\<close> headings and the printing of the inspect result
  change neither the control flow nor the saved state and are left out.  The daemon
  address reaches the builder through \<open>inputs.endpoint\<close>, which \<open>getCreateArgs\<close> reads.
\<close>

definition installBuildx :: "world \<Rightarrow> inputs \<Rightarrow> bool \<Rightarrow> unit io" where
  "installBuildx w i standalone' =
     bind_io
       (if isValidRef w (inputs_version i) then
          (if standalone' then throw_io CannotBuildFromSource
           else await_io (Call ''buildxInstall.build'' [inputs_version i])
                  (buildxInstall_build w))
        else
          bind_io (await_io (Call ''buildx.isAvailable'' []) (isAvailable w)) (\<lambda>available.
            if \<not> available \<or> inputs_version i \<noteq> []
            then await_io (Call ''buildxInstall.download''
                     [if inputs_version i \<noteq> [] then inputs_version i else ''latest''])
                   (buildxInstall_download w)
            else return_io []))
       (\<lambda>toolPath.
          when_io (toolPath \<noteq> [])
            (await_io (Call (if standalone' then ''buildxInstall.installStandalone''
                             else ''buildxInstall.installPlugin'') [toolPath])
               (buildxInstall_install w)))"

definition createBuilder :: "world \<Rightarrow> string \<Rightarrow> bool \<Rightarrow> unit io" where
  "createBuilder w endpoint standalone' =
     when_io (supportedDockerDriver \<noteq> ''docker'')
       (bind_io (await_io (Call ''context.getCreateArgs'' [endpoint]) (getCreateArgs w))
          (\<lambda>args.
             then_io (emit (Log Info (''Creating builder with command: '' @
                                       fst (getCommand standalone' args))))
               (exec_or_throw w (getCommand standalone' args))))"

definition bootBuilder :: "world \<Rightarrow> bool \<Rightarrow> unit io" where
  "bootBuilder w standalone' =
     bind_io (await_io (Call ''context.getInspectArgs'' []) (getInspectArgs w))
       (\<lambda>args. exec_or_throw w (getCommand standalone' args))"

definition setDefaultBuilder :: "world \<Rightarrow> inputs \<Rightarrow> bool \<Rightarrow> unit io" where
  "setDefaultBuilder w i standalone' =
     when_io (inputs_install i)
       (if standalone' then throw_io CannotSetDefaultBuilder
        else exec_or_throw w (getCommand standalone' [''install'']))"

text \<open>\<open>builderInspect.nodes[0]\<close> is undefined for a builder without nodes, and reading
  its \<open>name\<close> throws a TypeError.\<close>

definition inspectBuilder :: "world \<Rightarrow> inputs \<Rightarrow> bool \<Rightarrow> unit io" where
  "inspectBuilder w i standalone' =
     bind_io (await_io (Call ''builder.inspect'' [inputs_name i]) (inspect w (inputs_name i)))
       (\<lambda>builderInspect.
          case info_nodes builderInspect of
            [] \<Rightarrow> throw_io (External ''TypeError: Cannot read properties of undefined'')
          | firstNode # _ \<Rightarrow>
              seq_io
                [when_io (\<not> standalone' \<and> info_driver builderInspect = ''docker-container'')
                   (then_io
                      (setContainerName (containerNamePrefix w @ node_name firstNode))
                      (seq_io (map (\<lambda>n.
                         bind_io (await_io (Call ''buildkit.getVersion'' [node_name n])
                                    (getVersion w n))
                           (\<lambda>buildkitVersion.
                              emit (Log Info (node_name n @ '': '' @ buildkitVersion))))
                         (info_nodes builderInspect)))),
                 when_io (core_isDebug w \<or>
                          (case node_buildkitd_flags firstNode of
                             None \<Rightarrow> False
                           | Some flags \<Rightarrow> js_includes flags ''--debug''))
                   (setDebug ''true'')])"

definition setupBuilder :: "world \<Rightarrow> string \<Rightarrow> unit io" where
  "setupBuilder w buildkitdAddr =
     bind_io (await_io (Call ''context.getInputs'' []) (getInputs w)) (\<lambda>i.
     then_io (setCleanup (inputs_cleanup i))
       (bind_io (await_io (Call ''buildx.isStandalone'' []) (isStandalone w)) (\<lambda>standalone'.
          seq_io
            [setStandalone standalone',
             catch_io (await_io (Call ''Docker.printInfo'' []) (docker_info w))
               (\<lambda>e. emit (Log Info (message e))),
             installBuildx w i standalone',
             await_io (Call ''buildx.printVersion'' []) (printVersion w),
             setBuilderName (inputs_name i),
             setBuilderDriver supportedDockerDriver,
             await_io (Call ''fs.mkdirSync'' [buildx_certsDir w])
               (mkdirSync w (buildx_certsDir w)),
             setCertsDir (buildx_certsDir w),
             createBuilder w buildkitdAddr standalone',
             bootBuilder w standalone',
             setDefaultBuilder w i standalone',
             inspectBuilder w i standalone'])))"

subsection \<open>The initialization phase\<close>

text \<open>\<open>main\<close> after the two sticky-disk blocks: start the daemon, then set up the
  builder.\<close>

definition startDaemonAndBuilder :: "world \<Rightarrow> unit io" where
  "startDaemonAndBuilder w =
     bind_io (findPort w) (\<lambda>port.
     then_io (installBuildkitd w)
       (then_io (emit (Log Debug ''starting buildkitd daemon''))
          (bind_io (startBuildkitd w port) (\<lambda>buildkitdAddr.
             then_io (emit (Log Debug (''buildkitd daemon started at addr '' @
                                        buildkitdAddr)))
               (setupBuilder w buildkitdAddr)))))"

definition main_ts_main :: "world \<Rightarrow> unit io" where
  "main_ts_main w =
     bind_io (loadStickyDisks w) (\<lambda>enabled.
     then_io (mountStickyDisks w enabled) (startDaemonAndBuilder w))"

subsection \<open>The finalization phase\<close>

text \<open>The \<open>post\<close> function reads the exports of state-helper, here \<open>sh\<close>.\<close>

definition captureLogs :: "world \<Rightarrow> state_helper \<Rightarrow> unit io" where
  "captureLogs w sh =
     when_io (IsDebug sh \<and> length (containerName sh) > 0)
       (exec_or_warn w (''docker'', [''logs'', containerName sh]))"

definition stickyDiskCommitFile :: string where
  "stickyDiskCommitFile = ''/stickydisk/commit.txt''"

definition cleanupStickyDisks :: "world \<Rightarrow> state_helper \<Rightarrow> unit io" where
  "cleanupStickyDisks w sh =
     catch_io
       (when_io (isStickyDisksEnabled sh)
          (seq_io
             [shutdownBuildkitd w,
              ignore_io (execAsync w (''sudo umount '' @ mountPoint)),
              emit (Log Debug (device @ '' has been unmounted'')),
              ignore_io (execAsync w ''sudo mkdir -p /stickydisk''),
              ignore_io (execAsync w (''sudo touch '' @ stickyDiskCommitFile))]))
       (\<lambda>error. emit (Log Error ''error cleaning up sticky disks:''))"

definition stopCmd :: "state_helper \<Rightarrow> string \<times> string list" where
  "stopCmd sh = getCommand (standalone sh) [''stop'', builderName sh]"

definition rmCmd :: "state_helper \<Rightarrow> string \<times> string list" where
  "rmCmd sh = getCommand (standalone sh) [''rm'', builderName sh]"

definition removeBuilder :: "world \<Rightarrow> state_helper \<Rightarrow> unit io" where
  "removeBuilder w sh =
     bind_io (await_io (Call ''builder.exists'' [builderName sh])
                (builder_exists w (builderName sh)))
       (\<lambda>exists.
          if exists then
            seq_io
              [emit (Log Debug (''Stopping builder with command: '' @ fst (stopCmd sh))),
               ignore_io (getExecOutput w (stopCmd sh)),
               cleanupStickyDisks w sh,
               exec_or_warn w (rmCmd sh)]
          else emit (Log Info (builderName sh @ '' does not exist'')))"

definition removeCerts :: "world \<Rightarrow> state_helper \<Rightarrow> unit io" where
  "removeCerts w sh =
     when_io (length (certsDir sh) > 0 \<and> existsSync w (certsDir sh))
       (await_io (Call ''fs.rmSync'' [certsDir sh]) (rmSync w (certsDir sh)))"

definition main_ts_post :: "world \<Rightarrow> state_helper \<Rightarrow> unit io" where
  "main_ts_post w sh =
     then_io (captureLogs w sh)
       (if \<not> cleanup sh then return_io ()
        else seq_io
          [when_io (builderDriver sh \<noteq> ''docker'' \<and> length (builderName sh) > 0)
             (removeBuilder w sh),
           removeCerts w sh])"

text \<open>
  One job: the initialization phase runs in the world \<open>w\<close>, the finalization phase in
  the world \<open>w'\<close>.  The \<open>STATE_\<close> variables that state-helper finds in the finalization
  phase are exactly what the events of the initialization phase saved.  The value is the
  trace of each phase.
\<close>

definition finalization_state :: "event list \<Rightarrow> state_helper" where
  "finalization_state tr = stateHelper (saved_env Map.empty tr)"

definition main_ts_job :: "world \<Rightarrow> world \<Rightarrow> event list \<times> event list" where
  "main_ts_job w w' =
     (fst (main_ts_main w),
      fst (main_ts_post w' (finalization_state (fst (main_ts_main w)))))"

section \<open>The provisioning variant\<close>

text \<open>
  The second variant of the entry point asks the provisioning backend for a build task
  and polls until an instance is assigned.  \<open>getBlacksmithHttpClient\<close> builds an axios
  client; what matters of it is the base URL (the bearer token header is not modelled).
\<close>

definition baseURL :: "world \<Rightarrow> string" where
  "baseURL w =
     (case env w ''BUILDER_URL'' of
        None \<Rightarrow> ''https://d04fa050a7b2.ngrok.app/build_tasks''
      | Some u \<Rightarrow> if u = [] then ''https://d04fa050a7b2.ngrok.app/build_tasks'' else u)"

text \<open>
  Every request goes to the URL that axios computes from the base URL of the client and
  the argument of \<open>client.get\<close> or \<open>client.post\<close>.  axios is a dependency and not among
  the sources; \<open>isAbsoluteURL\<close>, \<open>combineURLs\<close> and \<open>buildFullPath\<close> are its helpers
  of these names, as version 1 of the library has them.
\<close>

definition is_letter :: "char \<Rightarrow> bool" where
  "is_letter c = (c \<in> set ''abcdefghijklmnopqrstuvwxyzABCDEFGHIJKLMNOPQRSTUVWXYZ'')"

definition is_scheme_char :: "char \<Rightarrow> bool" where
  "is_scheme_char c = (is_letter c \<or> c \<in> set ''0123456789+-.'')"

text \<open>The test of the pattern \<open>^([a-z][a-z\d+\-.]*:)?\/\/\<close>, letters in either case: the
  URL starts with two slashes, or with a scheme, a colon and two slashes.\<close>

definition isAbsoluteURL :: "string \<Rightarrow> bool" where
  "isAbsoluteURL url =
     (prefix ''//'' url \<or>
      (case url of
         [] \<Rightarrow> False
       | c # cs \<Rightarrow> is_letter c \<and> prefix ''://'' (dropWhile is_scheme_char cs)))"

text \<open>\<open>s.replace(/\/?\/$/, '')\<close>: one slash at the end of the string, or two, removed.\<close>

definition strip_slash :: "string \<Rightarrow> string" where
  "strip_slash s = (if s \<noteq> [] \<and> last s = CHR ''/'' then butlast s else s)"

definition strip_slashes :: "string \<Rightarrow> string" where
  "strip_slashes s = (if s \<noteq> [] \<and> last s = CHR ''/'' then strip_slash (butlast s) else s)"

text \<open>The relative URL loses its leading slashes (\<open>replace(/^\/+/, '')\<close>); an empty one
  leaves the base URL as it is.\<close>

definition combineURLs :: "string \<Rightarrow> string \<Rightarrow> string" where
  "combineURLs base relativeURL =
     (if relativeURL \<noteq> []
      then strip_slashes base @ ''/'' @ dropWhile (\<lambda>c. c = CHR ''/'') relativeURL
      else base)"

definition buildFullPath :: "string \<Rightarrow> string \<Rightarrow> string" where
  "buildFullPath base requestedURL =
     (if base \<noteq> [] \<and> \<not> isAbsoluteURL requestedURL then combineURLs base requestedURL
      else requestedURL)"

text \<open>A request through the client: no \<open>signal\<close> and no \<open>timeout\<close> is passed with any
  request, so it settles when the other side lets it settle.\<close>

definition request :: "event \<Rightarrow> 'a reply \<Rightarrow> 'a io" where
  "request ev r = ([ev, Took (fst r)], snd r)"

text \<open>\<open>client.post(url)\<close> for the requests other than the creation of the task.\<close>

definition client_post :: "world \<Rightarrow> string \<Rightarrow> string io" where
  "client_post w url =
     request (HttpPost (buildFullPath (baseURL w) url))
       (http_post w (buildFullPath (baseURL w) url))"

text \<open>
  The \<open>while (Date.now() - startTime < 60000)\<close> loop, entered with \<open>polls\<close> status
  queries made and \<open>elapsed\<close> milliseconds on the clock since \<open>startTime\<close>.  Time passes
  while a request is in flight and during the 200 ms sleep.  \<open>Some addr\<close> is the
  \<open>return\<close> inside the loop, \<open>None\<close> leaving the loop because the test failed.
  \<open>status_url\<close> is where \<open>client.get(`/${taskId}`)\<close> goes.
\<close>

definition status_url :: "world \<Rightarrow> string \<Rightarrow> string" where
  "status_url w taskId = buildFullPath (baseURL w) (''/'' @ taskId)"

function pollLoop :: "world \<Rightarrow> string \<Rightarrow> nat \<Rightarrow> nat \<Rightarrow> string option io" where
  "pollLoop w taskId polls elapsed =
     (if elapsed < 60000 then
        (case task_status w (status_url w taskId) polls of
           (took, Inl e) \<Rightarrow> ([HttpGet (status_url w taskId), Took took], Inl e)
         | (took, Inr d) \<Rightarrow>
             (case ec2_instance d of
                Some instance_ip \<Rightarrow>
                  ([HttpGet (status_url w taskId), Took took,
                    Log Info (''Got response from Blacksmith builder '' @ taskId @ '': '' @
                              status_json d),
                    Log Info (''Got EC2 instance IP after '' @
                              string_of_nat (elapsed + took) @ '' ms'')],
                   Inr (Some (''tcp://'' @ instance_ip @ '':4242'')))
              | None \<Rightarrow>
                  after
                    [HttpGet (status_url w taskId), Took took,
                     Log Info (''Got response from Blacksmith builder '' @ taskId @ '': '' @
                               status_json d),
                     Sleep 200]
                    (pollLoop w taskId (Suc polls) (elapsed + took + 200))))
      else return_io None)"
  by pat_completeness auto
termination
  by (relation "measure (\<lambda>(w, taskId, polls, elapsed). 60000 - elapsed)") auto

text \<open>\<open>try { m } finally { k }\<close> where \<open>k\<close> cannot throw.\<close>

definition finally_io :: "'a io \<Rightarrow> unit io \<Rightarrow> 'a io" where
  "finally_io m k = (fst m @ fst k, snd m)"

text \<open>
  \<open>getBuildkitdAddr\<close>.  The abort controller is created and its timer armed for
  30000 ms, but \<open>controller.signal\<close> is handed to no request: when the timer fires,
  \<open>abort()\<close> has nothing to abort.  The task is created with \<open>client.post('')\<close>.  The
  abandon request is addressed with the export \<open>stateHelper.blacksmithBuildTaskId\<close>,
  which was computed when the module was loaded, not with the local \<open>taskId\<close>; it is
  awaited outside any \<open>catch\<close>.
\<close>

definition getBuildkitdAddr :: "world \<Rightarrow> state_helper \<Rightarrow> string io" where
  "getBuildkitdAddr w sh =
     then_io (emit (Call ''setTimeout'' [''controller.abort'', ''30000'']))
       (finally_io
          (bind_io (request (HttpPost (buildFullPath (baseURL w) [])) (create_task w)) (\<lambda>d.
             then_io
               (seq_io
                  [setBlacksmithBuildTaskId (task_id d),
                   setBlacksmithClientKey (client_key d),
                   setBlacksmithClientCaCertificate (client_ca_certificate d),
                   setBlacksmithRootCaCertificate (root_ca_certificate d)])
               (bind_io (pollLoop w (task_id d) 0 0) (\<lambda>found.
                  case found of
                    Some addr \<Rightarrow> return_io addr
                  | None \<Rightarrow>
                      then_io
                        (ignore_io
                           (client_post w (''/'' @ blacksmithBuildTaskId sh @ ''/abandon'')))
                        (throw_io FailedToGetInstance)))))
          (emit (Call ''clearTimeout'' [])))"


text \<open>The initialization phase; \<open>sh\<close> is state-helper as loaded in this phase.\<close>

definition provisioning_main :: "world \<Rightarrow> state_helper \<Rightarrow> unit io" where
  "provisioning_main w sh =
     then_io (emit (Log Debug ''creating remote builder''))
       (bind_io (getBuildkitdAddr w sh) (\<lambda>buildkitdAddr.
          then_io (emit (Log Debug (''buildkitd daemon started at addr '' @ buildkitdAddr)))
            (setupBuilder w buildkitdAddr)))"



section \<open>Observations on traces\<close>

text \<open>The awaited promise resolved (did not reject).\<close>

definition resolved :: "error + 'a \<Rightarrow> bool" where
  "resolved r = (case r of Inl _ \<Rightarrow> False | Inr _ \<Rightarrow> True)"

text \<open>The requests of the finalization phase that the claims speak about.\<close>

definition logs_event :: "state_helper \<Rightarrow> event" where
  "logs_event sh = Exec ''docker'' [''logs'', containerName sh]"

definition complete_event :: "world \<Rightarrow> state_helper \<Rightarrow> event" where
  "complete_event w sh =
     HttpPost (buildFullPath (baseURL w) (''/'' @ blacksmithBuildTaskId sh @ ''/complete''))"

definition exists_event :: "state_helper \<Rightarrow> event" where
  "exists_event sh = Call ''builder.exists'' [builderName sh]"

definition stop_event :: "state_helper \<Rightarrow> event" where
  "stop_event sh = Exec (fst (stopCmd sh)) (snd (stopCmd sh))"

definition rm_event :: "state_helper \<Rightarrow> event" where
  "rm_event sh = Exec (fst (rmCmd sh)) (snd (rmCmd sh))"

definition shutdown_event :: event where
  "shutdown_event = Shell ''sudo pkill -TERM buildkitd''"

definition umount_event :: event where
  "umount_event = Shell (''sudo umount '' @ mountPoint)"

definition marker_dir_event :: event where
  "marker_dir_event = Shell ''sudo mkdir -p /stickydisk''"

definition marker_event :: event where
  "marker_event = Shell (''sudo touch '' @ stickyDiskCommitFile)"

definition rmSync_event :: "state_helper \<Rightarrow> event" where
  "rmSync_event sh = Call ''fs.rmSync'' [certsDir sh]"

text \<open>The sticky-disk commands in the order of the source, each attempted when the one
  before it resolved.\<close>

definition sticky_attempts :: "world \<Rightarrow> event list" where
  "sticky_attempts w =
     shutdown_event #
     (if resolved (shell w ''sudo pkill -TERM buildkitd'') then
        umount_event #
        (if resolved (shell w (''sudo umount '' @ mountPoint)) then
           marker_dir_event #
           (if resolved (shell w ''sudo mkdir -p /stickydisk'') then [marker_event] else [])
         else [])
      else [])"

text \<open>The builder stop, the sticky-disk commands and the builder removal.\<close>

definition teardown_step :: "state_helper \<Rightarrow> event \<Rightarrow> bool" where
  "teardown_step sh ev =
     (ev = stop_event sh \<or> ev = shutdown_event \<or> ev = umount_event \<or>
      ev = marker_dir_event \<or> ev = marker_event \<or> ev = rm_event sh)"

text \<open>Every request of steps 4 and 5 of the teardown: the existence check, the builder
  commands, any shell command, the deletion of the certificate directory.\<close>

definition cleanup_step :: "state_helper \<Rightarrow> event \<Rightarrow> bool" where
  "cleanup_step sh ev =
     (ev = exists_event sh \<or> ev = stop_event sh \<or> ev = rm_event sh \<or>
      (case ev of Shell _ \<Rightarrow> True | _ \<Rightarrow> False) \<or> ev = rmSync_event sh)"

text \<open>The log capture, if it was due, did not reject.\<close>

definition logs_completed :: "world \<Rightarrow> state_helper \<Rightarrow> bool" where
  "logs_completed w sh =
     (\<not> (IsDebug sh \<and> containerName sh \<noteq> []) \<or>
      resolved (exec w ''docker'' [''logs'', containerName sh]))"

text \<open>The finalization phase gets as far as a positive existence check of the builder.\<close>

definition removal_reached :: "world \<Rightarrow> state_helper \<Rightarrow> bool" where
  "removal_reached w sh =
     (logs_completed w sh \<and> cleanup sh \<and> builderDriver sh \<noteq> ''docker'' \<and>
      builderName sh \<noteq> [] \<and> builder_exists w (builderName sh) = Inr True)"

text \<open>Every event of a computation has the property \<open>P\<close>.\<close>

definition all_events :: "(event \<Rightarrow> bool) \<Rightarrow> 'a io \<Rightarrow> bool" where
  "all_events P m = (\<forall>ev\<in>set (fst m). P ev)"

text \<open>The event is none of the three steps of the second \<open>try\<close> block of \<open>main\<close>: a
  save of the sticky-disk flag, the creation of the mount point, the mount.\<close>

definition not_sticky_step :: "event \<Rightarrow> bool" where
  "not_sticky_step ev =
     (case ev of
        SaveState name v \<Rightarrow> name \<noteq> ''isStickyDisksEnabled''
      | Shell cmd \<Rightarrow> cmd \<noteq> ''sudo mkdir -p '' @ mountPoint \<and>
                     cmd \<noteq> ''sudo mount '' @ device @ '' '' @ mountPoint
      | _ \<Rightarrow> True)"

section \<open>Example worlds\<close>

text \<open>A world in which every request succeeds: the sticky disk is reported loaded, the
  block device is there, the builder exists, and the backend assigns an instance at once.\<close>

definition ok_world :: world where
  "ok_world =
     \<lparr> env = [''VSOCK_PORT'' \<mapsto> ''9999''],
       shell = (\<lambda>_. Inr ([], [])),
       exec = (\<lambda>_ _. Inr \<lparr> exitCode = 0, stdout = [], stderr = [] \<rparr>),
       existsSync = (\<lambda>_. True),
       rmSync = (\<lambda>_. Inr ()),
       mkdirSync = (\<lambda>_. Inr ()),
       mmds_put = (\<lambda>_. Inr ''token''),
       mmds_get = (\<lambda>_ _. Inr (Text ''true'')),
       getPort = Inr 49152,
       parseInt = (\<lambda>_. Some 1000),
       toml_stringify = (\<lambda>_. ''toml''),
       getInputs = Inr \<lparr> inputs_version = [], inputs_name = ''builder'',
                          inputs_install = False, inputs_cacheBinary = True,
                          inputs_cleanup = True \<rparr>,
       isStandalone = Inr False,
       docker_info = Inr (),
       isValidRef = (\<lambda>_. False),
       isAvailable = Inr True,
       buildxInstall_build = Inr ''/opt/buildx'',
       buildxInstall_download = Inr ''/opt/buildx'',
       buildxInstall_install = Inr (),
       printVersion = Inr (),
       buildx_certsDir = ''/tmp/certs'',
       containerNamePrefix = ''buildx_buildkit_'',
       getCreateArgs = Inr [''create''],
       getInspectArgs = Inr [''inspect''],
       inspect = (\<lambda>_. Inr \<lparr> info_driver = ''remote'',
                    info_nodes = [\<lparr> node_name = ''builder0'',
                                    node_buildkitd_flags = None \<rparr>] \<rparr>),
       getVersion = (\<lambda>_. Inr ''v0.13.2''),
       core_isDebug = False,
       builder_exists = (\<lambda>_. Inr True),
       create_task = (10, Inr \<lparr> task_id = ''t1'', client_key = ''k'',
                                 client_ca_certificate = ''ca'',
                                 root_ca_certificate = ''root'' \<rparr>),
       task_status = (\<lambda>_ _. (50, Inr \<lparr> ec2_instance = Some ''10.0.0.1'',
                                          status_json = ''{}'' \<rparr>)),
       http_post = (\<lambda>_. (10, Inr ''{}'')) \<rparr>"

text \<open>What state-helper exports in a finalization phase after an initialization that
  enabled sticky disks and recorded the builder \<open>builder\<close>.\<close>

definition sticky_state :: state_helper where
  "sticky_state =
     \<lparr> IsDebug = False, standalone = False, builderName = ''builder'',
       builderDriver = ''remote'', containerName = [], certsDir = ''/tmp/certs'',
       cleanup = True, isStickyDisksEnabled = True, blacksmithBuildTaskId = [],
       blacksmithClientKey = [], blacksmithClientCaCertificate = [],
       blacksmithRootCaCertificate = [] \<rparr>"

text \<open>The runner did not pass \<open>VSOCK_PORT\<close> to the action.\<close>

definition no_vsock_world :: world where
  "no_vsock_world = ok_world \<lparr> env := Map.empty \<rparr>"

text \<open>The device is there but cannot be mounted.\<close>

definition mount_fails_world :: world where
  "mount_fails_world =
     ok_world \<lparr> shell := (\<lambda>cmd. if cmd = ''sudo mount /dev/vdb /var/lib/buildkit''
                                 then Inl (External ''mount: wrong fs type'')
                                 else Inr ([], [])) \<rparr>"

text \<open>No \<open>buildkitd\<close> process is left to signal: \<open>pkill\<close> exits with code 1.\<close>

definition pkill_fails_world :: world where
  "pkill_fails_world =
     ok_world \<lparr> shell := (\<lambda>cmd. if cmd = ''sudo pkill -TERM buildkitd''
                                 then Inl (External ''Command failed: sudo pkill -TERM buildkitd'')
                                 else Inr ([], [])) \<rparr>"

definition no_builder_world :: world where
  "no_builder_world = ok_world \<lparr> builder_exists := (\<lambda>_. Inr False) \<rparr>"



text \<open>
  The backend creates the task \<open>t1\<close> and has no capacity: the status query takes a
  minute and reports no instance.  The backend answers every request that reaches it; no
  host of the name \<open>abandon\<close> exists, so that a request to \<open>//abandon\<close> fails when the
  name is looked up.  \<open>BUILDER_URL\<close> is not set, and no \<open>STATE_\<close> variable is: the
  runner sets these for the finalization phase only.
\<close>

definition no_capacity_world :: world where
  "no_capacity_world =
     ok_world \<lparr> task_status := (\<lambda>_ _. (60000, Inr \<lparr> ec2_instance = None,
                                                       status_json = ''{}'' \<rparr>)),
                http_post := (\<lambda>url. if url = ''//abandon''
                                    then (5, Inl (External ''getaddrinfo ENOTFOUND abandon''))
                                    else (10, Inr ''{}'')) \<rparr>"

text \<open>The first status query hangs for 100 seconds before the backend answers it.\<close>

definition hung_query_world :: world where
  "hung_query_world =
     ok_world \<lparr> task_status := (\<lambda>_ _. (100000, Inr \<lparr> ec2_instance = Some ''10.0.0.1'',
                                                        status_json = ''{}'' \<rparr>)) \<rparr>"

text \<open>The world answers every request that follows the sticky-disk blocks as
  \<open>ok_world\<close> does; only the mount itself may fail.\<close>

definition builds_like_ok :: "world \<Rightarrow> bool" where
  "builds_like_ok w =
     (getInputs w = getInputs ok_world \<and> isStandalone w = isStandalone ok_world \<and>
      docker_info w = docker_info ok_world \<and> isValidRef w = isValidRef ok_world \<and>
      isAvailable w = isAvailable ok_world \<and> printVersion w = printVersion ok_world \<and>
      buildx_certsDir w = buildx_certsDir ok_world \<and> mkdirSync w = mkdirSync ok_world \<and>
      getCreateArgs w = getCreateArgs ok_world \<and> getInspectArgs w = getInspectArgs ok_world \<and>
      exec w = exec ok_world \<and> inspect w = inspect ok_world \<and>
      core_isDebug w = core_isDebug ok_world \<and> getPort w = getPort ok_world \<and>
      parseInt w = parseInt ok_world \<and> toml_stringify w = toml_stringify ok_world \<and>
      mmds_put w = mmds_put ok_world \<and> mmds_get w = mmds_get ok_world \<and>
      (\<forall>cmd. cmd \<noteq> ''sudo mount /dev/vdb /var/lib/buildkit'' \<longrightarrow>
             shell w cmd = Inr ([], [])))"

text \<open>The warning that \<open>main\<close> logs when \<open>VSOCK_PORT\<close> is not set.\<close>

definition vsock_warning :: event where
  "vsock_warning = Log Warning
     ''error fetching sticky disks metadata: Error: Environment variable VSOCK_PORT is not set.''"

section \<open>Computing with traces\<close>

lemma resolved_simps [simp]: "resolved (Inr x)" "\<not> resolved (Inl e)"
  by (simp_all add: resolved_def)

lemma resolved_unit: "resolved (r :: error + unit) \<longleftrightarrow> r = Inr ()"
  by (cases r) simp_all

lemma after_pair [simp]: "after tr (tr', r) = (tr @ tr', r)"
  by (simp add: after_def)

lemma fst_after [simp]: "fst (after tr m) = tr @ fst m"
  by (simp add: after_def)

lemma snd_after [simp]: "snd (after tr m) = snd m"
  by (simp add: after_def)

lemma fst_return_io [simp]: "fst (return_io x) = []"
  by (simp add: return_io_def)

lemma snd_return_io [simp]: "snd (return_io x) = Inr x"
  by (simp add: return_io_def)

lemma fst_throw_io [simp]: "fst (throw_io e) = []"
  by (simp add: throw_io_def)

lemma snd_throw_io [simp]: "snd (throw_io e) = Inl e"
  by (simp add: throw_io_def)

lemma fst_emit [simp]: "fst (emit ev) = [ev]"
  by (simp add: emit_def)

lemma snd_emit [simp]: "snd (emit ev) = Inr ()"
  by (simp add: emit_def)

lemma fst_await_io [simp]: "fst (await_io ev r) = [ev]"
  by (simp add: await_io_def)

lemma snd_await_io [simp]: "snd (await_io ev r) = r"
  by (simp add: await_io_def)

lemma fst_bind_io:
  "fst (bind_io m f) = fst m @ (case snd m of Inl e \<Rightarrow> [] | Inr x \<Rightarrow> fst (f x))"
  by (simp add: bind_io_def split: sum.splits)

lemma snd_bind_io:
  "snd (bind_io m f) = (case snd m of Inl e \<Rightarrow> Inl e | Inr x \<Rightarrow> snd (f x))"
  by (simp add: bind_io_def split: sum.splits)

lemma fst_then_io: "fst (then_io m k) = fst m @ (if resolved (snd m) then fst k else [])"
  by (simp add: then_io_def fst_bind_io split: sum.splits)

lemma snd_then_io:
  "snd (then_io m k) = (case snd m of Inl e \<Rightarrow> Inl e | Inr x \<Rightarrow> snd k)"
  by (simp add: then_io_def snd_bind_io)

lemma resolved_then_io:
  "resolved (snd (then_io m k)) \<longleftrightarrow> resolved (snd m) \<and> resolved (snd k)"
  by (simp add: snd_then_io split: sum.splits)

lemma fst_catch_io:
  "fst (catch_io m h) = fst m @ (case snd m of Inl e \<Rightarrow> fst (h e) | Inr x \<Rightarrow> [])"
  by (simp add: catch_io_def split: sum.splits)

lemma snd_catch_io:
  "snd (catch_io m h) = (case snd m of Inl e \<Rightarrow> snd (h e) | Inr x \<Rightarrow> Inr x)"
  by (simp add: catch_io_def split: sum.splits)

lemma fst_ignore_io [simp]: "fst (ignore_io m) = fst m"
  by (simp add: ignore_io_def fst_bind_io split: sum.splits)

lemma snd_ignore_io:
  "snd (ignore_io m) = (case snd m of Inl e \<Rightarrow> Inl e | Inr x \<Rightarrow> Inr ())"
  by (simp add: ignore_io_def snd_bind_io split: sum.splits)

lemma resolved_ignore_io [simp]: "resolved (snd (ignore_io m)) \<longleftrightarrow> resolved (snd m)"
  by (simp add: snd_ignore_io split: sum.splits)

lemma fst_when_io: "fst (when_io c m) = (if c then fst m else [])"
  by (simp add: when_io_def)

lemma snd_when_io: "snd (when_io c m) = (if c then snd m else Inr ())"
  by (simp add: when_io_def)

lemma resolved_when_io: "resolved (snd (when_io c m)) \<longleftrightarrow> (c \<longrightarrow> resolved (snd m))"
  by (simp add: when_io_def)

lemma fst_seq_io_Cons:
  "fst (seq_io (m # ms)) = fst m @ (if resolved (snd m) then fst (seq_io ms) else [])"
  by (simp add: fst_then_io)

lemma resolved_seq_io_Cons:
  "resolved (snd (seq_io (m # ms))) \<longleftrightarrow> resolved (snd m) \<and> resolved (snd (seq_io ms))"
  by (simp add: resolved_then_io)

lemma seq_io_Nil [simp]: "fst (seq_io []) = []" "resolved (snd (seq_io []))"
  by simp_all

lemma fst_execAsync [simp]: "fst (execAsync w cmd) = [Shell cmd]"
  by (simp add: execAsync_def)

lemma snd_execAsync [simp]: "snd (execAsync w cmd) = shell w cmd"
  by (simp add: execAsync_def)

lemma fst_getExecOutput [simp]: "fst (getExecOutput w cmd) = [Exec (fst cmd) (snd cmd)]"
  by (simp add: getExecOutput_def)

lemma snd_getExecOutput [simp]: "snd (getExecOutput w cmd) = exec w (fst cmd) (snd cmd)"
  by (simp add: getExecOutput_def)

lemmas step_simps = fst_then_io resolved_then_io fst_when_io resolved_when_io
  fst_seq_io_Cons resolved_seq_io_Cons

section \<open>Facts about the retry combinator\<close>

lemma retry_attempt_Some:
  "snd (retry_attempt c) = Some r \<longleftrightarrow> snd c = Inr r \<and> accepted r"
  by (auto simp: retry_attempt_def split: sum.splits)

lemma retryable_iff:
  "retryable c \<longleftrightarrow> (\<forall>r. snd c = Inr r \<longrightarrow> \<not> accepted r)"
  by (auto simp: retryable_def retry_attempt_def split: sum.splits)



lemma retryCommand_loop_returns:
  "snd (retryCommand_loop n s c) = Inr r \<longleftrightarrow>
   (\<exists>i. n \<le> i \<and> i \<le> 10 \<and> snd (c i) = Inr r \<and> accepted r
        \<and> (\<forall>j. n \<le> j \<and> j < i \<longrightarrow> retryable (c j)))"
proof (induction n s c rule: retryCommand_loop.induct)
  case (1 n s c)
  let ?ex = "\<lambda>m. \<exists>i. m \<le> i \<and> i \<le> 10 \<and> snd (c i) = Inr r \<and> accepted r
        \<and> (\<forall>j. m \<le> j \<and> j < i \<longrightarrow> retryable (c j))"
  show ?case
  proof (cases "n > 10")
    case True
    then show ?thesis by (subst retryCommand_loop.simps) (auto simp: throw_io_def)
  next
    case False
    then have le: "n \<le> 10" by simp
    obtain tr res where ra: "retry_attempt (c n) = (tr, res)" by (cases "retry_attempt (c n)")
    show ?thesis
    proof (cases res)
      case (Some result)
      have lhs: "snd (retryCommand_loop n s c) = Inr result"
        using False ra Some by (subst retryCommand_loop.simps) simp
      have good: "snd (c n) = Inr result \<and> accepted result"
        using ra Some retry_attempt_Some[of "c n" result] by simp
      then have nr: "\<not> retryable (c n)" by (simp add: retryable_iff)
      have "?ex n \<longleftrightarrow> r = result"
      proof
        assume "?ex n"
        then obtain i where i: "n \<le> i" "snd (c i) = Inr r"
            "\<forall>j. n \<le> j \<and> j < i \<longrightarrow> retryable (c j)" by blast
        have "i = n"
        proof (rule ccontr)
          assume "i \<noteq> n"
          with i(1) have "n < i" by simp
          with i(3) have "retryable (c n)" by simp
          with nr show False by simp
        qed
        with i(2) good show "r = result" by simp
      next
        assume "r = result"
        with good le show "?ex n" by (auto intro!: exI[of _ n])
      qed
      with lhs show ?thesis by auto
    next
      case None
      have lhs: "snd (retryCommand_loop n s c) = snd (retryCommand_loop (Suc n) s c)"
        using False ra None by (subst retryCommand_loop.simps) (simp add: after_def)
      have rt: "retryable (c n)" using ra None by (simp add: retryable_def)
      have IH: "snd (retryCommand_loop (Suc n) s c) = Inr r \<longleftrightarrow> ?ex (Suc n)"
        using 1[OF False ra[symmetric] None] by simp
      have "?ex (Suc n) \<longleftrightarrow> ?ex n"
      proof
        assume "?ex (Suc n)"
        then obtain i where i: "Suc n \<le> i" "i \<le> 10" "snd (c i) = Inr r" "accepted r"
           "\<forall>j. Suc n \<le> j \<and> j < i \<longrightarrow> retryable (c j)"
          by blast
        have "\<forall>j. n \<le> j \<and> j < i \<longrightarrow> retryable (c j)"
        proof (intro allI impI)
          fix j assume j: "n \<le> j \<and> j < i"
          show "retryable (c j)"
          proof (cases "j = n")
            case True with rt show ?thesis by simp
          next
            case False with j i(5) show ?thesis by simp
          qed
        qed
        with i show "?ex n" by (auto intro!: exI[of _ i])
      next
        assume "?ex n"
        then obtain i where i: "n \<le> i" "i \<le> 10" "snd (c i) = Inr r" "accepted r"
           "\<forall>j. n \<le> j \<and> j < i \<longrightarrow> retryable (c j)"
          by blast
        from i(3,4) rt have "i \<noteq> n" by (auto simp: retryable_iff)
        with i(1) have "Suc n \<le> i" by simp
        with i show "?ex (Suc n)" by (auto intro!: exI[of _ i])
      qed
      with lhs IH show ?thesis by simp
    qed
  qed
qed




text \<open>
  C7, as the code has it.  \<open>retryCommand\<close> resolves with \<open>r\<close> exactly when one of the
  calls 0 to 10 resolved with \<open>r\<close>, \<open>r\<close> is not empty and does not include the sentinel
  \<open>Resource not found\<close>, and every earlier call rejected or resolved with a string that
  is empty or includes that sentinel.
\<close>

theorem retryCommand_returns:
  "snd (retryCommand sleepTime command) = Inr r \<longleftrightarrow>
     (\<exists>i\<le>10. snd (command i) = Inr r \<and> r \<noteq> [] \<and> \<not> js_includes r ''Resource not found'' \<and>
        (\<forall>j<i. \<forall>r'. snd (command j) = Inr r' \<longrightarrow>
                  r' = [] \<or> js_includes r' ''Resource not found''))"
  unfolding retryCommand_def retryCommand_loop_returns
  by (auto simp: retryable_iff accepted_def)

theorem retryCommand_returns_witness:
  "snd (retryCommand 1
          (\<lambda>i. if i = 0 then ([], Inr ''Resource not found'') else ([], Inr ''true''))) =
     Inr ''true''"
  using retryCommand_returns[of 1
      "\<lambda>i. if i = 0 then ([], Inr ''Resource not found'') else ([], Inr ''true'')" "''true''"]
  by (auto intro!: exI[of _ "Suc 0"])

text \<open>A result that contains \<open>not found\<close> but not \<open>Resource not found\<close> is returned
  by the first pass, without any retry.\<close>

theorem retryCommand_not_found_counterexample:
  "js_includes ''not found'' ''not found'' \<and>
   retryCommand 1 (\<lambda>_. ([], Inr ''not found'')) =
     ([Log Debug ''Command result: not found''], Inr ''not found'')"
  by (simp add: retryCommand_def retry_attempt_def accepted_def)

section \<open>Facts about the finalization phase\<close>

lemma teardown_step_simps [simp]:
  "\<not> teardown_step sh (Log l m)"
  "\<not> teardown_step sh (Call n a)"
  "teardown_step sh (rm_event sh)"
  "teardown_step sh (stop_event sh)"
  "\<not> teardown_step sh (logs_event sh)"
  "teardown_step sh (Shell ''sudo pkill -TERM buildkitd'')"
  "teardown_step sh (Shell ''sudo umount /var/lib/buildkit'')"
  "teardown_step sh (Shell ''sudo mkdir -p /stickydisk'')"
  "teardown_step sh (Shell ''sudo touch /stickydisk/commit.txt'')"
  by (auto simp: teardown_step_def rm_event_def stop_event_def rmCmd_def stopCmd_def
      logs_event_def shutdown_event_def umount_event_def marker_dir_event_def marker_event_def
      getCommand_def mountPoint_def stickyDiskCommitFile_def)

lemma fst_shutdownBuildkitd:
  "fst (shutdownBuildkitd w) =
     Shell ''sudo pkill -TERM buildkitd'' #
     (if resolved (shell w ''sudo pkill -TERM buildkitd'') then []
      else [Log Error ''error shutting down buildkitd process:''])"
  by (simp add: shutdownBuildkitd_def fst_catch_io fst_then_io snd_ignore_io split: sum.splits)

lemma resolved_shutdownBuildkitd:
  "resolved (snd (shutdownBuildkitd w)) = resolved (shell w ''sudo pkill -TERM buildkitd'')"
  by (simp add: shutdownBuildkitd_def snd_catch_io snd_then_io snd_ignore_io split: sum.splits)

lemma snd_cleanupStickyDisks [simp]: "snd (cleanupStickyDisks w sh) = Inr ()"
  by (simp add: cleanupStickyDisks_def snd_catch_io resolved_unit[symmetric] split: sum.splits)

lemma teardown_cleanupStickyDisks:
  "filter (teardown_step sh) (fst (cleanupStickyDisks w sh)) =
     (if isStickyDisksEnabled sh then sticky_attempts w else [])"
  by (simp add: cleanupStickyDisks_def fst_catch_io step_simps fst_shutdownBuildkitd
      resolved_shutdownBuildkitd sticky_attempts_def
      shutdown_event_def umount_event_def marker_dir_event_def marker_event_def
      mountPoint_def stickyDiskCommitFile_def device_def split: sum.splits)

lemma teardown_exec_or_warn_rm:
  "filter (teardown_step sh) (fst (exec_or_warn w (rmCmd sh))) = [rm_event sh]"
  by (simp add: exec_or_warn_def fst_bind_io fst_when_io rm_event_def[symmetric]
      split: sum.splits)

lemma teardown_removeBuilder:
  "filter (teardown_step sh) (fst (removeBuilder w sh)) =
     (if builder_exists w (builderName sh) = Inr True
      then stop_event sh #
           (if resolved (exec w (fst (stopCmd sh)) (snd (stopCmd sh)))
            then (if isStickyDisksEnabled sh then sticky_attempts w else []) @ [rm_event sh]
            else [])
      else [])"
  by (simp add: removeBuilder_def fst_bind_io step_simps teardown_cleanupStickyDisks
      teardown_exec_or_warn_rm stop_event_def[symmetric]
      split: sum.splits)

lemma fst_captureLogs:
  "fst (captureLogs w sh) =
     (if IsDebug sh \<and> containerName sh \<noteq> [] then
        logs_event sh #
        (case exec w ''docker'' [''logs'', containerName sh] of
           Inl e \<Rightarrow> []
         | Inr res \<Rightarrow> if failed_output res then [Log Warning (stderr_message (stderr res))]
                      else [])
      else [])"
  by (simp add: captureLogs_def exec_or_warn_def fst_when_io fst_bind_io logs_event_def
      split: sum.splits)

lemma resolved_captureLogs:
  "resolved (snd (captureLogs w sh)) = logs_completed w sh"
  by (auto simp: captureLogs_def exec_or_warn_def snd_when_io snd_bind_io logs_completed_def
      split: sum.splits)

lemma teardown_captureLogs: "filter (teardown_step sh) (fst (captureLogs w sh)) = []"
  by (simp add: fst_captureLogs split: sum.splits)

lemma teardown_removeCerts: "filter (teardown_step sh) (fst (removeCerts w sh)) = []"
  by (simp add: removeCerts_def fst_when_io)

lemma teardown_main_ts_post:
  "filter (teardown_step sh) (fst (main_ts_post w sh)) =
     (if removal_reached w sh
      then stop_event sh #
           (if resolved (exec w (fst (stopCmd sh)) (snd (stopCmd sh)))
            then (if isStickyDisksEnabled sh then sticky_attempts w else []) @ [rm_event sh]
            else [])
      else [])"
  by (simp add: main_ts_post_def step_simps teardown_captureLogs teardown_removeCerts
      teardown_removeBuilder resolved_captureLogs removal_reached_def)


text \<open>
  C4, as the code has it.  In the finalization phase of main.ts with sticky disks
  recorded as enabled, the builder stop, the sticky-disk commands and the builder remove
  request occur in this order and in no other: once the existence check of the builder
  is positive, the stop; once the stop resolved, the daemon shutdown, then (if the
  shutdown resolved) the unmount, then (if the unmount resolved) the creation of the
  marker directory, then (if that resolved) the commit marker; and after these, however
  many of them were attempted, the remove request.  None of them occurs otherwise.
\<close>

theorem sticky_teardown_order:
  assumes "isStickyDisksEnabled sh"
  shows "filter (teardown_step sh) (fst (main_ts_post w sh)) =
     (if removal_reached w sh
      then stop_event sh #
           (if resolved (exec w (fst (stopCmd sh)) (snd (stopCmd sh)))
            then sticky_attempts w @ [rm_event sh]
            else [])
      else [])"
  using assms by (simp add: teardown_main_ts_post)

lemma ok_world_fields:
  "env ok_world = [''VSOCK_PORT'' \<mapsto> ''9999'']"
  "shell ok_world = (\<lambda>_. Inr ([], []))"
  "exec ok_world = (\<lambda>_ _. Inr \<lparr> exitCode = 0, stdout = [], stderr = [] \<rparr>)"
  "existsSync ok_world = (\<lambda>_. True)"
  "rmSync ok_world = (\<lambda>_. Inr ())"
  "mkdirSync ok_world = (\<lambda>_. Inr ())"
  "mmds_put ok_world = (\<lambda>_. Inr ''token'')"
  "mmds_get ok_world = (\<lambda>_ _. Inr (Text ''true''))"
  "getPort ok_world = Inr 49152"
  "parseInt ok_world = (\<lambda>_. Some 1000)"
  "toml_stringify ok_world = (\<lambda>_. ''toml'')"
  "getInputs ok_world = Inr \<lparr> inputs_version = [], inputs_name = ''builder'',
                          inputs_install = False, inputs_cacheBinary = True,
                          inputs_cleanup = True \<rparr>"
  "isStandalone ok_world = Inr False"
  "docker_info ok_world = Inr ()"
  "isValidRef ok_world = (\<lambda>_. False)"
  "isAvailable ok_world = Inr True"
  "buildxInstall_install ok_world = Inr ()"
  "printVersion ok_world = Inr ()"
  "buildx_certsDir ok_world = ''/tmp/certs''"
  "containerNamePrefix ok_world = ''buildx_buildkit_''"
  "getCreateArgs ok_world = Inr [''create'']"
  "getInspectArgs ok_world = Inr [''inspect'']"
  "inspect ok_world = (\<lambda>_. Inr \<lparr> info_driver = ''remote'',
                    info_nodes = [\<lparr> node_name = ''builder0'',
                                    node_buildkitd_flags = None \<rparr>] \<rparr>)"
  "core_isDebug ok_world = False"
  "builder_exists ok_world = (\<lambda>_. Inr True)"
  by (simp_all add: ok_world_def)

theorem sticky_teardown_order_witness:
  "isStickyDisksEnabled sticky_state \<and>
   filter (teardown_step sticky_state) (fst (main_ts_post ok_world sticky_state)) =
     [Exec ''docker'' [''buildx'', ''stop'', ''builder''],
      Shell ''sudo pkill -TERM buildkitd'',
      Shell ''sudo umount /var/lib/buildkit'',
      Shell ''sudo mkdir -p /stickydisk'',
      Shell ''sudo touch /stickydisk/commit.txt'',
      Exec ''docker'' [''buildx'', ''rm'', ''builder'']]"
  using sticky_teardown_order[of sticky_state ok_world]
  by (simp add: sticky_state_def removal_reached_def logs_completed_def ok_world_fields
      sticky_attempts_def stop_event_def rm_event_def stopCmd_def rmCmd_def getCommand_def
      shutdown_event_def umount_event_def marker_dir_event_def marker_event_def mountPoint_def
      stickyDiskCommitFile_def)


text \<open>
  With sticky disks enabled and a \<open>pkill\<close> that fails, the remove request is issued
  although the unmount was never attempted and the commit marker was never written.
\<close>

theorem remove_without_marker_counterexample:
  "isStickyDisksEnabled sticky_state \<and>
   rm_event sticky_state \<in> set (fst (main_ts_post pkill_fails_world sticky_state)) \<and>
   marker_event \<notin> set (fst (main_ts_post pkill_fails_world sticky_state)) \<and>
   umount_event \<notin> set (fst (main_ts_post pkill_fails_world sticky_state))"
proof -
  let ?tr = "fst (main_ts_post pkill_fails_world sticky_state)"
  have f: "filter (teardown_step sticky_state) ?tr =
             [stop_event sticky_state, shutdown_event, rm_event sticky_state]"
    by (simp add: teardown_main_ts_post removal_reached_def logs_completed_def
        sticky_attempts_def pkill_fails_world_def ok_world_fields sticky_state_def)
  have mem: "ev \<in> set ?tr \<longleftrightarrow> ev \<in> set (filter (teardown_step sticky_state) ?tr)"
    if "teardown_step sticky_state ev" for ev
    using that by simp
  have "rm_event sticky_state \<in> set ?tr"
    by (subst mem) (simp_all add: f)
  moreover have "marker_event \<notin> set ?tr"
    by (subst mem) (simp_all add: f teardown_step_def marker_event_def shutdown_event_def
        stop_event_def rm_event_def)
  moreover have "umount_event \<notin> set ?tr"
    by (subst mem) (simp_all add: f teardown_step_def umount_event_def shutdown_event_def
        stop_event_def rm_event_def)
  moreover have "isStickyDisksEnabled sticky_state"
    by (simp add: sticky_state_def)
  ultimately show ?thesis by simp
qed

text \<open>
  C10.  If the existence check of the recorded builder answers false, the finalization
  phase of main.ts issues none of the builder stop, the daemon shutdown, the unmount,
  the commit-marker commands and the builder remove request, whatever the recorded
  flags are (in particular with sticky disks enabled).
\<close>

theorem missing_builder_skips_teardown:
  assumes "builder_exists w (builderName sh) = Inr False"
  shows "stop_event sh \<notin> set (fst (main_ts_post w sh)) \<and>
         shutdown_event \<notin> set (fst (main_ts_post w sh)) \<and>
         umount_event \<notin> set (fst (main_ts_post w sh)) \<and>
         marker_dir_event \<notin> set (fst (main_ts_post w sh)) \<and>
         marker_event \<notin> set (fst (main_ts_post w sh)) \<and>
         rm_event sh \<notin> set (fst (main_ts_post w sh))"
proof -
  have "filter (teardown_step sh) (fst (main_ts_post w sh)) = []"
    using assms by (simp add: teardown_main_ts_post removal_reached_def)
  then have none: "\<And>ev. teardown_step sh ev \<Longrightarrow> ev \<notin> set (fst (main_ts_post w sh))"
    by (auto simp: filter_empty_conv)
  show ?thesis
    by (intro conjI none) (simp_all add: teardown_step_def)
qed

theorem missing_builder_skips_teardown_witness:
  "isStickyDisksEnabled sticky_state \<and> cleanup sticky_state \<and>
   builder_exists no_builder_world (builderName sticky_state) = Inr False \<and>
   stop_event sticky_state \<notin> set (fst (main_ts_post no_builder_world sticky_state)) \<and>
   shutdown_event \<notin> set (fst (main_ts_post no_builder_world sticky_state)) \<and>
   umount_event \<notin> set (fst (main_ts_post no_builder_world sticky_state)) \<and>
   marker_dir_event \<notin> set (fst (main_ts_post no_builder_world sticky_state)) \<and>
   marker_event \<notin> set (fst (main_ts_post no_builder_world sticky_state)) \<and>
   rm_event sticky_state \<notin> set (fst (main_ts_post no_builder_world sticky_state))"
proof -
  have h: "builder_exists no_builder_world (builderName sticky_state) = Inr False"
    by (simp add: no_builder_world_def)
  show ?thesis
    using missing_builder_skips_teardown[OF h] h by (simp add: sticky_state_def)
qed

lemma cleanup_step_simps [simp]:
  "\<not> cleanup_step sh (Log l m)"
  "\<not> cleanup_step sh (HttpPost u)"
  "\<not> cleanup_step sh (Took n)"
  "\<not> cleanup_step sh (logs_event sh)"
  "\<not> cleanup_step sh (complete_event w sh)"
  by (auto simp: cleanup_step_def rm_event_def stop_event_def rmCmd_def stopCmd_def
      logs_event_def exists_event_def rmSync_event_def getCommand_def complete_event_def)




lemma logs_event_neq [simp]:
  "logs_event sh \<noteq> complete_event w sh" "logs_event sh \<noteq> Took n" "logs_event sh \<noteq> Log l m"
  by (simp_all add: logs_event_def complete_event_def)

lemma complete_event_neq [simp]:
  "complete_event w sh \<noteq> Took n" "complete_event w sh \<noteq> Log l m"
  "complete_event w sh \<noteq> logs_event sh"
  by (simp_all add: logs_event_def complete_event_def)







section \<open>Facts about the cross-phase state\<close>

lemma saved_env_append: "saved_env e (tr1 @ tr2) = saved_env (saved_env e tr1) tr2"
  by (simp add: saved_env_def)

lemma saved_env_Cons: "saved_env e (ev # tr) = saved_env (record_event e ev) tr"
  by (simp add: saved_env_def)

lemma saved_env_Nil [simp]: "saved_env e [] = e"
  by (simp add: saved_env_def)

lemma saved_env_unsaved:
  "\<forall>v'. SaveState n v' \<notin> set tr \<Longrightarrow> saved_env e tr (''STATE_'' @ n) = e (''STATE_'' @ n)"
proof (induction tr arbitrary: e)
  case Nil
  then show ?case by simp
next
  case (Cons ev tr)
  then have "saved_env (record_event e ev) tr (''STATE_'' @ n) = record_event e ev (''STATE_'' @ n)"
    by simp
  moreover have "record_event e ev (''STATE_'' @ n) = e (''STATE_'' @ n)"
    using Cons.prems by (cases ev) auto
  ultimately show ?case by (simp add: saved_env_Cons)
qed

lemma saved_env_set:
  assumes "\<forall>v'. SaveState n v' \<notin> set later"
  shows "saved_env e (earlier @ SaveState n v # later) (''STATE_'' @ n) = Some v"
  using saved_env_unsaved[OF assms, of "record_event (saved_env e earlier) (SaveState n v)"]
  by (simp add: saved_env_append saved_env_Cons)

lemma fst_setters [simp]:
  "fst (setDebug s) = [SaveState ''isDebug'' s]"
  "fst (setStandalone b) = [SaveState ''standalone'' (if b then ''true'' else ''false'')]"
  "fst (setBuilderName s) = [SaveState ''builderName'' s]"
  "fst (setBuilderDriver s) = [SaveState ''builderDriver'' s]"
  "fst (setContainerName s) = [SaveState ''containerName'' s]"
  "fst (setCertsDir s) = [SaveState ''certsDir'' s]"
  "fst (setCleanup b) = [SaveState ''cleanup'' (if b then ''true'' else ''false'')]"
  "fst (setStickyDisksEnabled s) = [SaveState ''isStickyDisksEnabled'' s]"
  "fst (setBlacksmithBuildTaskId s) = [SaveState ''blacksmithBuildTaskId'' s]"
  "fst (setBlacksmithClientKey s) = [SaveState ''blacksmithClientKey'' s]"
  "fst (setBlacksmithClientCaCertificate s) = [SaveState ''blacksmithClientCaCertificate'' s]"
  "fst (setBlacksmithRootCaCertificate s) = [SaveState ''blacksmithRootCaCertificate'' s]"
  by (simp_all add: setDebug_def setStandalone_def setBuilderName_def setBuilderDriver_def
      setContainerName_def setCertsDir_def setCleanup_def setStickyDisksEnabled_def
      setBlacksmithBuildTaskId_def setBlacksmithClientKey_def
      setBlacksmithClientCaCertificate_def setBlacksmithRootCaCertificate_def saveState_def)

lemma snd_setters [simp]:
  "snd (setDebug s) = Inr ()"
  "snd (setStandalone b) = Inr ()"
  "snd (setBuilderName s) = Inr ()"
  "snd (setBuilderDriver s) = Inr ()"
  "snd (setContainerName s) = Inr ()"
  "snd (setCertsDir s) = Inr ()"
  "snd (setCleanup b) = Inr ()"
  "snd (setStickyDisksEnabled s) = Inr ()"
  "snd (setBlacksmithBuildTaskId s) = Inr ()"
  "snd (setBlacksmithClientKey s) = Inr ()"
  "snd (setBlacksmithClientCaCertificate s) = Inr ()"
  "snd (setBlacksmithRootCaCertificate s) = Inr ()"
  by (simp_all add: setDebug_def setStandalone_def setBuilderName_def setBuilderDriver_def
      setContainerName_def setCertsDir_def setCleanup_def setStickyDisksEnabled_def
      setBlacksmithBuildTaskId_def setBlacksmithClientKey_def
      setBlacksmithClientCaCertificate_def setBlacksmithRootCaCertificate_def saveState_def)

lemma fst_set_key:
  "well_typed k v \<Longrightarrow> fst (set_key k v) = [SaveState (key_name k) (toCommandValue v)]"
  by (cases k; cases v) (simp_all add: boolean_key_def)

lemma stateHelper_reads:
  assumes "e (''STATE_'' @ key_name k) = Some s"
  shows "get_key k (stateHelper e) =
           (if k = K_isDebug \<or> k = K_isStickyDisksEnabled then JBool (s \<noteq> [])
            else if boolean_key k then JBool (test_true_i s) else JString s)"
  using assms by (cases k) (simp_all add: stateHelper_def truthy_def or_empty_def boolean_key_def)

text \<open>
  C1, as the code has it.  Let the initialization phase call the setter of a key \<open>k\<close>
  with a value \<open>v\<close> of the setter's type, after any events and before any events that do
  not save \<open>k\<close> again.  Then the export that the finalization phase reads for \<open>k\<close> is
  \<open>v\<close> itself for the eight string keys and for the boolean keys \<open>standalone\<close> and
  \<open>cleanup\<close>; for \<open>isDebug\<close> and \<open>isStickyDisksEnabled\<close>, which are saved as strings, it
  is the boolean that tells whether \<open>v\<close> is a non-empty string.
\<close>

theorem state_round_trip:
  assumes "well_typed k v" and "\<forall>v'. SaveState (key_name k) v' \<notin> set later"
  shows "get_key k (stateHelper (saved_env e (earlier @ fst (set_key k v) @ later))) =
           read_back k v"
proof -
  have "saved_env e (earlier @ fst (set_key k v) @ later) (''STATE_'' @ key_name k) =
          Some (toCommandValue v)"
    using saved_env_set[OF assms(2)] assms(1) by (simp add: fst_set_key)
  from stateHelper_reads[of "saved_env e (earlier @ fst (set_key k v) @ later)" k, OF this]
    assms(1) show ?thesis
    by (cases k; cases v) (simp_all add: boolean_key_def)
qed


theorem state_round_trip_witness:
  "well_typed K_cleanup (JBool False) \<and>
   get_key K_cleanup
     (stateHelper (saved_env Map.empty
        (fst (setStickyDisksEnabled ''true'') @ fst (set_key K_cleanup (JBool False)) @
         fst (setBuilderName ''builder'')))) = JBool False"
proof -
  have h1: "well_typed K_cleanup (JBool False)" by (simp add: boolean_key_def)
  have h2: "\<forall>v'. SaveState (key_name K_cleanup) v' \<notin> set (fst (setBuilderName ''builder''))"
    by simp
  show ?thesis
    using state_round_trip[OF h1 h2, where e = Map.empty
        and earlier = "fst (setStickyDisksEnabled ''true'')"] h1
    by simp
qed

text \<open>
  After \<open>setDebug('false')\<close> the finalization phase reads \<open>IsDebug\<close> as \<open>true\<close>: not the
  string that was written, and not the boolean it spells.
\<close>

theorem debug_flag_counterexample:
  "well_typed K_isDebug (JString ''false'') \<and>
   get_key K_isDebug (finalization_state (fst (set_key K_isDebug (JString ''false'')))) =
     JBool True \<and>
   get_key K_isDebug (finalization_state (fst (set_key K_isDebug (JString ''false'')))) \<noteq>
     JString ''false''"
  by (simp add: boolean_key_def finalization_state_def saved_env_def stateHelper_def truthy_def)

section \<open>Properties of all events\<close>

lemma all_events_return [intro!, simp]: "all_events P (return_io x)"
  by (simp add: all_events_def)

lemma all_events_throw [intro!, simp]: "all_events P (throw_io e)"
  by (simp add: all_events_def)

lemma all_events_emit [simp]: "all_events P (emit ev) \<longleftrightarrow> P ev"
  by (simp add: all_events_def)

lemma all_events_await [simp]: "all_events P (await_io ev r) \<longleftrightarrow> P ev"
  by (simp add: all_events_def)

lemma all_events_pair: "all_events P (tr, r) \<longleftrightarrow> (\<forall>ev\<in>set tr. P ev)"
  by (simp add: all_events_def)

lemma all_events_after:
  "(\<forall>ev\<in>set tr. P ev) \<Longrightarrow> all_events P m \<Longrightarrow> all_events P (after tr m)"
  by (auto simp: all_events_def)

lemma all_events_bind:
  "all_events P m \<Longrightarrow> (\<And>x. all_events P (f x)) \<Longrightarrow> all_events P (bind_io m f)"
  by (auto simp: all_events_def fst_bind_io split: sum.splits)

lemma all_events_then:
  "all_events P m \<Longrightarrow> all_events P k \<Longrightarrow> all_events P (then_io m k)"
  by (simp add: then_io_def all_events_bind)

lemma all_events_catch:
  "all_events P m \<Longrightarrow> (\<And>e. all_events P (h e)) \<Longrightarrow> all_events P (catch_io m h)"
  by (auto simp: all_events_def fst_catch_io split: sum.splits)

lemma all_events_ignore: "all_events P m \<Longrightarrow> all_events P (ignore_io m)"
  by (simp add: all_events_def)

lemma all_events_when: "(c \<Longrightarrow> all_events P m) \<Longrightarrow> all_events P (when_io c m)"
  by (simp add: when_io_def)

lemma all_events_seq_Nil: "all_events P (seq_io [])"
  by simp

lemma all_events_seq_Cons:
  "all_events P m \<Longrightarrow> all_events P (seq_io ms) \<Longrightarrow> all_events P (seq_io (m # ms))"
  by (simp add: all_events_then)

lemma all_events_seq_map:
  "(\<And>x. all_events P (f x)) \<Longrightarrow> all_events P (seq_io (map f xs))"
  by (induction xs) (simp_all add: all_events_then)

lemma all_events_if:
  "(c \<Longrightarrow> all_events P a) \<Longrightarrow> (\<not> c \<Longrightarrow> all_events P b) \<Longrightarrow>
   all_events P (if c then a else b)"
  by simp

lemma all_events_case_option:
  "(x = None \<Longrightarrow> all_events P a) \<Longrightarrow> (\<And>y. x = Some y \<Longrightarrow> all_events P (b y)) \<Longrightarrow>
   all_events P (case x of None \<Rightarrow> a | Some y \<Rightarrow> b y)"
  by (cases x) simp_all

lemma all_events_case_list:
  "(xs = [] \<Longrightarrow> all_events P a) \<Longrightarrow> (\<And>y ys. xs = y # ys \<Longrightarrow> all_events P (b y ys)) \<Longrightarrow>
   all_events P (case xs of [] \<Rightarrow> a | y # ys \<Rightarrow> b y ys)"
  by (cases xs) simp_all

lemma all_events_case_sum:
  "(\<And>y. x = Inl y \<Longrightarrow> all_events P (a y)) \<Longrightarrow> (\<And>y. x = Inr y \<Longrightarrow> all_events P (b y)) \<Longrightarrow>
   all_events P (case x of Inl y \<Rightarrow> a y | Inr y \<Rightarrow> b y)"
  by (cases x) simp_all

lemma all_events_execAsync [simp]: "all_events P (execAsync w cmd) \<longleftrightarrow> P (Shell cmd)"
  by (simp add: execAsync_def)

lemma all_events_getExecOutput [simp]:
  "all_events P (getExecOutput w cmd) \<longleftrightarrow> P (Exec (fst cmd) (snd cmd))"
  by (simp add: getExecOutput_def)

lemmas all_events_intros = all_events_bind all_events_then all_events_catch all_events_ignore
  all_events_when all_events_seq_Nil all_events_seq_Cons all_events_seq_map all_events_if
  all_events_case_option all_events_case_list all_events_case_sum all_events_return
  all_events_throw

lemma not_sticky_step_simps [simp]:
  "not_sticky_step (Log l m)" "not_sticky_step (Sleep n)"
  "not_sticky_step (Spawn c)" "not_sticky_step (Exec c a)" "not_sticky_step (HttpPut u)"
  "not_sticky_step (HttpGet u)" "not_sticky_step (HttpPost u)" "not_sticky_step (Took n)"
  "not_sticky_step (Call c a)"
  "not_sticky_step (SaveState name v) \<longleftrightarrow> name \<noteq> ''isStickyDisksEnabled''"
  "not_sticky_step (Shell c) \<longleftrightarrow>
     c \<noteq> ''sudo mkdir -p /var/lib/buildkit'' \<and> c \<noteq> ''sudo mount /dev/vdb /var/lib/buildkit''"
  by (simp_all add: not_sticky_step_def mountPoint_def device_def)

lemma all_events_setters [simp]:
  "all_events P (setDebug s) \<longleftrightarrow> P (SaveState ''isDebug'' s)"
  "all_events P (setStandalone b) \<longleftrightarrow> P (SaveState ''standalone'' (if b then ''true'' else ''false''))"
  "all_events P (setBuilderName s) \<longleftrightarrow> P (SaveState ''builderName'' s)"
  "all_events P (setBuilderDriver s) \<longleftrightarrow> P (SaveState ''builderDriver'' s)"
  "all_events P (setContainerName s) \<longleftrightarrow> P (SaveState ''containerName'' s)"
  "all_events P (setCertsDir s) \<longleftrightarrow> P (SaveState ''certsDir'' s)"
  "all_events P (setCleanup b) \<longleftrightarrow> P (SaveState ''cleanup'' (if b then ''true'' else ''false''))"
  by (simp_all add: all_events_def)

lemma all_events_retry_attempt:
  assumes "all_events P c" "\<And>l m. P (Log l m)"
  shows "\<forall>ev\<in>set (fst (retry_attempt c)). P ev"
  using assms by (auto simp: retry_attempt_def all_events_def split: sum.splits)

lemma all_events_retryCommand_loop:
  assumes "\<And>i. all_events P (c i)" "\<And>l m. P (Log l m)" "\<And>n. P (Sleep n)"
  shows "all_events P (retryCommand_loop n s c)"
  using assms
proof (induction n s c rule: retryCommand_loop.induct)
  case (1 n s c)
  have a: "\<forall>ev\<in>set (fst (retry_attempt (c n))). P ev"
    using all_events_retry_attempt[OF "1.prems"(1)[of n] "1.prems"(2)] .
  show ?case
  proof (cases "n > 10")
    case True
    then show ?thesis by (subst retryCommand_loop.simps) simp
  next
    case False
    obtain tr res where ra: "retry_attempt (c n) = (tr, res)" by (cases "retry_attempt (c n)")
    show ?thesis
    proof (cases res)
      case None
      have "all_events P (retryCommand_loop (Suc n) s c)"
        using "1.IH"[OF False ra[symmetric] None] "1.prems" by blast
      then show ?thesis
        using False ra None a "1.prems"(3)
        by (subst retryCommand_loop.simps) (auto simp: all_events_def)
    next
      case (Some r)
      then show ?thesis
        using False ra a by (subst retryCommand_loop.simps) (simp add: all_events_pair)
    qed
  qed
qed

lemma all_events_retryCommand:
  assumes "\<And>i. all_events P (c i)" "\<And>l m. P (Log l m)" "\<And>n. P (Sleep n)"
  shows "all_events P (retryCommand s c)"
  unfolding retryCommand_def using assms by (rule all_events_retryCommand_loop)

lemma no_sticky_step_getMetadata: "all_events not_sticky_step (getMetadata w endpoint i)"
  unfolding getMetadata_def by (intro all_events_intros) simp_all

lemma no_sticky_step_loadStickyDisks: "all_events not_sticky_step (loadStickyDisks w)"
  unfolding loadStickyDisks_def sendLoadStickyDisksRequest_def getEnvVar_def
  by (intro all_events_intros all_events_retryCommand no_sticky_step_getMetadata) simp_all

lemma no_sticky_step_exec_or_throw: "all_events not_sticky_step (exec_or_throw w cmd)"
  unfolding exec_or_throw_def by (intro all_events_intros) simp_all

lemma no_sticky_step_installBuildx: "all_events not_sticky_step (installBuildx w i sa)"
  unfolding installBuildx_def by (intro all_events_intros) simp_all

lemma no_sticky_step_inspectBuilder: "all_events not_sticky_step (inspectBuilder w i sa)"
  unfolding inspectBuilder_def by (intro all_events_intros) simp_all

lemma no_sticky_step_setupBuilder: "all_events not_sticky_step (setupBuilder w addr)"
  unfolding setupBuilder_def createBuilder_def bootBuilder_def setDefaultBuilder_def
  by (intro all_events_intros no_sticky_step_exec_or_throw no_sticky_step_installBuildx
      no_sticky_step_inspectBuilder) simp_all

lemma no_sticky_step_installBuildkitd: "all_events not_sticky_step (installBuildkitd w)"
  unfolding installBuildkitd_def by (intro all_events_intros) simp_all

lemma no_sticky_step_startBuildkitd: "all_events not_sticky_step (startBuildkitd w port)"
  unfolding startBuildkitd_def writeBuildkitdTomlFile_def getDiskSize_def
  by (intro all_events_intros) simp_all

lemma no_sticky_step_findPort: "all_events not_sticky_step (findPort w)"
  by (auto simp: findPort_def all_events_pair split: sum.splits)

lemma no_sticky_step_startDaemonAndBuilder:
  "all_events not_sticky_step (startDaemonAndBuilder w)"
  unfolding startDaemonAndBuilder_def
  by (intro all_events_intros no_sticky_step_findPort no_sticky_step_installBuildkitd
      no_sticky_step_startBuildkitd no_sticky_step_setupBuilder) simp_all


section \<open>More trace computation\<close>

lemma fst_bind_io':
  "fst (bind_io m f) = fst m @ (if resolved (snd m) then fst (f (projr (snd m))) else [])"
  by (simp add: fst_bind_io split: sum.splits)

lemma resolved_bind_io:
  "resolved (snd (bind_io m f)) \<longleftrightarrow> resolved (snd m) \<and> resolved (snd (f (projr (snd m))))"
  by (simp add: snd_bind_io split: sum.splits)

lemma fst_catch_io':
  "fst (catch_io m h) = fst m @ (if resolved (snd m) then [] else fst (h (projl (snd m))))"
  by (simp add: fst_catch_io split: sum.splits)

lemma resolved_catch_io:
  "resolved (snd (catch_io m h)) \<longleftrightarrow> resolved (snd m) \<or> resolved (snd (h (projl (snd m))))"
  by (simp add: snd_catch_io split: sum.splits)

lemmas run_simps = fst_bind_io' resolved_bind_io fst_catch_io' resolved_catch_io step_simps

section \<open>Facts about the initialization phase of main.ts\<close>

lemma snd_loadStickyDisks:
  "snd (loadStickyDisks w) =
     Inr (resolved (snd (getEnvVar w ''VSOCK_PORT'')) \<and>
          snd (retryCommand 1 (getMetadata w ''sticky_disk_loaded'')) = Inr ''true'')"
  by (auto simp: loadStickyDisks_def sendLoadStickyDisksRequest_def snd_catch_io snd_then_io
      snd_bind_io split: sum.splits)

lemma snd_mountStickyDisks [simp]: "snd (mountStickyDisks w enabled) = Inr ()"
  by (simp add: mountStickyDisks_def resolved_unit[symmetric] resolved_catch_io)

lemma fst_checkBlockDevice [simp]: "fst (checkBlockDevice w dev) = [Shell (''lsblk '' @ dev)]"
  by (simp add: checkBlockDevice_def run_simps)

lemma snd_checkBlockDevice [simp]:
  "snd (checkBlockDevice w dev) = Inr (resolved (shell w (''lsblk '' @ dev)))"
  by (simp add: checkBlockDevice_def snd_catch_io snd_bind_io split: sum.splits)

lemma fst_mountStickyDisks:
  "fst (mountStickyDisks w enabled) =
     Shell (''lsblk '' @ device) #
     (if enabled \<and> resolved (shell w (''lsblk '' @ device)) then
        SaveState ''isStickyDisksEnabled'' ''true'' #
        Shell (''sudo mkdir -p '' @ mountPoint) #
        (if resolved (shell w (''sudo mkdir -p '' @ mountPoint)) then
           Shell (''sudo mount '' @ device @ '' '' @ mountPoint) #
           (if resolved (shell w (''sudo mount '' @ device @ '' '' @ mountPoint))
            then [Log Debug (device @ '' has been mounted to '' @ mountPoint)]
            else [Log Warning ''error setting up sticky disks:''])
         else [Log Warning ''error setting up sticky disks:''])
      else [])"
  by (simp add: mountStickyDisks_def run_simps)

lemma fst_main_ts_main:
  "fst (main_ts_main w) =
     fst (loadStickyDisks w) @
     fst (mountStickyDisks w
            (resolved (snd (getEnvVar w ''VSOCK_PORT'')) \<and>
             snd (retryCommand 1 (getMetadata w ''sticky_disk_loaded'')) = Inr ''true'')) @
     fst (startDaemonAndBuilder w)"
  by (simp add: main_ts_main_def fst_bind_io snd_loadStickyDisks fst_then_io)

lemma not_sticky_saveD:
  "all_events not_sticky_step m \<Longrightarrow> SaveState ''isStickyDisksEnabled'' v \<notin> set (fst m)"
  by (auto simp: all_events_def not_sticky_step_def)

lemma not_sticky_shellD:
  assumes "all_events not_sticky_step m"
  shows "Shell (''sudo mkdir -p '' @ mountPoint) \<notin> set (fst m)"
    and "Shell (''sudo mount '' @ device @ '' '' @ mountPoint) \<notin> set (fst m)"
  using assms by (auto simp: all_events_def not_sticky_step_def)

lemma sticky_save_main_ts_main:
  "SaveState ''isStickyDisksEnabled'' v \<in> set (fst (main_ts_main w)) \<longleftrightarrow>
     v = ''true'' \<and> snd (retryCommand 1 (getMetadata w ''sticky_disk_loaded'')) = Inr ''true'' \<and>
     resolved (snd (getEnvVar w ''VSOCK_PORT'')) \<and> resolved (shell w (''lsblk '' @ device))"
  using not_sticky_saveD[OF no_sticky_step_loadStickyDisks, of v w]
    not_sticky_saveD[OF no_sticky_step_startDaemonAndBuilder, of v w]
  by (auto simp: fst_main_ts_main fst_mountStickyDisks)

lemma sticky_flag_saved:
  assumes "isStickyDisksEnabled (finalization_state tr)"
  shows "\<exists>v. SaveState ''isStickyDisksEnabled'' v \<in> set tr"
proof (rule ccontr)
  assume "\<not> ?thesis"
  then have "\<forall>v'. SaveState ''isStickyDisksEnabled'' v' \<notin> set tr" by simp
  from saved_env_unsaved[OF this, of Map.empty] assms show False
    by (simp add: finalization_state_def stateHelper_def truthy_def)
qed

lemma umount_needs_flag:
  assumes "umount_event \<in> set (fst (main_ts_post w sh))"
  shows "isStickyDisksEnabled sh"
proof (rule ccontr)
  assume n: "\<not> isStickyDisksEnabled sh"
  have t: "teardown_step sh umount_event" by (simp add: teardown_step_def)
  with assms have "umount_event \<in> set (filter (teardown_step sh) (fst (main_ts_post w sh)))"
    by simp
  with n show False
    by (auto simp: teardown_main_ts_post umount_event_def stop_event_def rm_event_def
        split: if_splits)
qed

text \<open>
  C2, as the code has it.  If the finalization phase of a job attempts the unmount, then
  the initialization phase of that job recorded the sticky-disk flag: the metadata
  service had reported the sticky disk as loaded and the block device was present.  The
  trace of the initialization phase is then the first block, the probe of the device,
  the save of the flag, immediately after it the command that creates the mount point,
  then (only if that command succeeded) the mount and the debug line or the warning
  that tells how it went, and after that the start of the daemon and the builder.  The
  flag is saved nowhere else, the mount point is created and the mount is attempted
  nowhere else; so the mount is attempted exactly when the creation of the mount point
  succeeded.  Whether the mount succeeded, or was attempted at all, is not recorded.
\<close>

theorem unmount_only_after_flag:
  assumes "umount_event \<in> set (snd (main_ts_job w w'))"
  shows "snd (retryCommand 1 (getMetadata w ''sticky_disk_loaded'')) = Inr ''true'' \<and>
         resolved (shell w (''lsblk '' @ device)) \<and>
         SaveState ''isStickyDisksEnabled'' ''true'' \<in> set (fst (main_ts_job w w')) \<and>
         Shell (''sudo mkdir -p '' @ mountPoint) \<in> set (fst (main_ts_job w w')) \<and>
         fst (main_ts_job w w') =
           fst (loadStickyDisks w) @
           [Shell (''lsblk '' @ device),
            SaveState ''isStickyDisksEnabled'' ''true'',
            Shell (''sudo mkdir -p '' @ mountPoint)] @
           (if resolved (shell w (''sudo mkdir -p '' @ mountPoint)) then
              Shell (''sudo mount '' @ device @ '' '' @ mountPoint) #
              (if resolved (shell w (''sudo mount '' @ device @ '' '' @ mountPoint))
               then [Log Debug (device @ '' has been mounted to '' @ mountPoint)]
               else [Log Warning ''error setting up sticky disks:''])
            else [Log Warning ''error setting up sticky disks:'']) @
           fst (startDaemonAndBuilder w) \<and>
         (\<forall>v. SaveState ''isStickyDisksEnabled'' v \<notin> set (fst (loadStickyDisks w)) \<and>
              SaveState ''isStickyDisksEnabled'' v \<notin> set (fst (startDaemonAndBuilder w))) \<and>
         Shell (''sudo mkdir -p '' @ mountPoint) \<notin> set (fst (loadStickyDisks w)) \<and>
         Shell (''sudo mkdir -p '' @ mountPoint) \<notin> set (fst (startDaemonAndBuilder w)) \<and>
         Shell (''sudo mount '' @ device @ '' '' @ mountPoint) \<notin>
           set (fst (loadStickyDisks w)) \<and>
         Shell (''sudo mount '' @ device @ '' '' @ mountPoint) \<notin>
           set (fst (startDaemonAndBuilder w)) \<and>
         (Shell (''sudo mount '' @ device @ '' '' @ mountPoint) \<in> set (fst (main_ts_job w w'))
            \<longleftrightarrow> resolved (shell w (''sudo mkdir -p '' @ mountPoint)))"
proof -
  let ?mkdir = "Shell (''sudo mkdir -p '' @ mountPoint)"
  let ?mount = "Shell (''sudo mount '' @ device @ '' '' @ mountPoint)"
  from assms have "isStickyDisksEnabled (finalization_state (fst (main_ts_main w)))"
    by (auto simp: main_ts_job_def intro: umount_needs_flag)
  then obtain v where v: "SaveState ''isStickyDisksEnabled'' v \<in> set (fst (main_ts_main w))"
    using sticky_flag_saved by blast
  then have c: "snd (retryCommand 1 (getMetadata w ''sticky_disk_loaded'')) = Inr ''true''"
      "resolved (snd (getEnvVar w ''VSOCK_PORT''))" "resolved (shell w (''lsblk '' @ device))"
    by (simp_all add: sticky_save_main_ts_main)
  have tr: "fst (main_ts_main w) =
      fst (loadStickyDisks w) @
      [Shell (''lsblk '' @ device), SaveState ''isStickyDisksEnabled'' ''true'', ?mkdir] @
      (if resolved (shell w (''sudo mkdir -p '' @ mountPoint)) then
         ?mount #
         (if resolved (shell w (''sudo mount '' @ device @ '' '' @ mountPoint))
          then [Log Debug (device @ '' has been mounted to '' @ mountPoint)]
          else [Log Warning ''error setting up sticky disks:''])
       else [Log Warning ''error setting up sticky disks:'']) @
      fst (startDaemonAndBuilder w)"
    using c by (simp add: fst_main_ts_main fst_mountStickyDisks)
  note l = no_sticky_step_loadStickyDisks[of w]
  note d = no_sticky_step_startDaemonAndBuilder[of w]
  have out: "?mkdir \<notin> set (fst (loadStickyDisks w))"
      "?mkdir \<notin> set (fst (startDaemonAndBuilder w))"
      "?mount \<notin> set (fst (loadStickyDisks w))"
      "?mount \<notin> set (fst (startDaemonAndBuilder w))"
    using not_sticky_shellD[OF l] not_sticky_shellD[OF d] by blast+
  have flag: "\<forall>v. SaveState ''isStickyDisksEnabled'' v \<notin> set (fst (loadStickyDisks w)) \<and>
                  SaveState ''isStickyDisksEnabled'' v \<notin> set (fst (startDaemonAndBuilder w))"
    using not_sticky_saveD[OF l] not_sticky_saveD[OF d] by blast
  have ne: "?mount \<noteq> Shell (''lsblk '' @ device)" "?mount \<noteq> ?mkdir"
    by (simp_all add: device_def mountPoint_def)
  have m: "?mount \<in> set (fst (main_ts_main w)) \<longleftrightarrow>
           resolved (shell w (''sudo mkdir -p '' @ mountPoint))"
    unfolding tr using out(3,4) ne by auto
  have job: "fst (main_ts_job w w') = fst (main_ts_main w)"
    by (simp add: main_ts_job_def)
  have mem: "SaveState ''isStickyDisksEnabled'' ''true'' \<in> set (fst (main_ts_main w))"
      "?mkdir \<in> set (fst (main_ts_main w))"
    unfolding tr by simp_all
  show ?thesis
    unfolding job by (intro conjI) (fact c(1) c(3) mem tr flag out m)+
qed

lemma builds_like_ok_examples:
  "builds_like_ok ok_world" "builds_like_ok no_vsock_world" "builds_like_ok mount_fails_world"
  by (simp_all add: builds_like_ok_def no_vsock_world_def mount_fails_world_def
      ok_world_fields)

lemma setupBuilder_ok:
  assumes "builds_like_ok w"
  shows "setupBuilder w addr =
    ([Call ''context.getInputs'' [], SaveState ''cleanup'' ''true'',
      Call ''buildx.isStandalone'' [], SaveState ''standalone'' ''false'',
      Call ''Docker.printInfo'' [], Call ''buildx.isAvailable'' [],
      Call ''buildx.printVersion'' [], SaveState ''builderName'' ''builder'',
      SaveState ''builderDriver'' ''remote'',
      Call ''fs.mkdirSync'' [''/tmp/certs''],
      SaveState ''certsDir'' ''/tmp/certs'',
      Call ''context.getCreateArgs'' [addr],
      Log Info ''Creating builder with command: docker'',
      Exec ''docker'' [''buildx'', ''create''],
      Call ''context.getInspectArgs'' [],
      Exec ''docker'' [''buildx'', ''inspect''],
      Call ''builder.inspect'' [''builder'']], Inr ())"
  using assms unfolding builds_like_ok_def
  by (intro prod_eqI)
    (simp_all add: ok_world_fields setupBuilder_def installBuildx_def createBuilder_def
      bootBuilder_def setDefaultBuilder_def inspectBuilder_def exec_or_throw_def
      failed_output_def getCommand_def supportedDockerDriver_def run_simps
      snd_bind_io snd_then_io snd_catch_io snd_when_io)

lemma startDaemonAndBuilder_ok:
  assumes "builds_like_ok w"
  shows "startDaemonAndBuilder w =
    ([Call ''portfinder.getPort'' [''49152'', ''65535''],
      Shell (''sudo wget '' @
        ''https://github.com/moby/buildkit/releases/download/v0.13.2/buildkit-v0.13.2.linux-amd64.tar.gz''),
      Shell ''sudo tar -xvf buildkit-v0.13.2.linux-amd64.tar.gz'',
      Shell ''sudo mv bin/* /usr/local/bin/'',
      Log Debug ''buildKit installed successfully'',
      Log Debug ''starting buildkitd daemon'',
      Shell ''sudo lsblk -b -n -o SIZE /dev/vdb'',
      Log Info ''disk size is 1000'', Shell ''sudo touch buildkitd.toml'',
      Shell ''sudo chmod 666 buildkitd.toml'',
      Shell ''echo \"toml\" > buildkitd.toml'',
      Log Debug ''TOML configuration is toml'',
      Shell (''sudo nohup buildkitd --addr tcp://0.0.0.0:49152'' @
             '' --allow-insecure-entitlement security.insecure --config=buildkitd.toml'' @
             '' --allow-insecure-entitlement network.host > buildkitd.log 2>&1 &''),
      Log Debug ''buildkitd daemon started successfully '',
      Shell ''pgrep -f buildkitd'',
      Log Debug ''buildkitd daemon started at addr tcp://0.0.0.0:49152''] @
     fst (setupBuilder w ''tcp://0.0.0.0:49152''), Inr ())"
  using assms unfolding builds_like_ok_def
  by (intro prod_eqI)
    (simp_all add: ok_world_fields setupBuilder_ok[OF assms]
      startDaemonAndBuilder_def findPort_def installBuildkitd_def startBuildkitd_def
      writeBuildkitdTomlFile_def getDiskSize_def device_def string_of_int_def digit_char_def
      run_simps snd_bind_io snd_then_io snd_catch_io snd_ignore_io)

lemma getEnvVar_unset:
  assumes "env w name = None \<or> env w name = Some []"
  shows "getEnvVar w name = throw_io (EnvVarNotSet name)"
  using assms by (auto simp: getEnvVar_def)

lemma loadStickyDisks_unset:
  assumes "env w ''VSOCK_PORT'' = None \<or> env w ''VSOCK_PORT'' = Some []"
  shows "loadStickyDisks w = ([vsock_warning], Inr False)"
  by (rule prod_eqI)
    (simp_all add: loadStickyDisks_def sendLoadStickyDisksRequest_def getEnvVar_unset[OF assms]
      run_simps snd_catch_io snd_then_io snd_bind_io show_error_def vsock_warning_def)

lemma snd_main_ts_main: "snd (main_ts_main w) = snd (startDaemonAndBuilder w)"
  by (simp add: main_ts_main_def snd_bind_io snd_loadStickyDisks snd_then_io)

text \<open>
  C9, as the code has it.  When \<open>VSOCK_PORT\<close> is unset or empty, \<open>getEnvVar\<close> throws,
  and the first block of \<open>main\<close> catches the error: it logs one warning, makes no request
  to the metadata service and leaves sticky disks disabled.  \<open>main\<close> then carries on with
  the block-device check and the start of the daemon, and it fails or succeeds as these
  later steps do.
\<close>

theorem missing_vsock_port_warns:
  assumes "env w ''VSOCK_PORT'' = None \<or> env w ''VSOCK_PORT'' = Some []"
  shows "getEnvVar w ''VSOCK_PORT'' = throw_io (EnvVarNotSet ''VSOCK_PORT'') \<and>
         loadStickyDisks w = ([vsock_warning], Inr False) \<and>
         main_ts_main w =
           after [vsock_warning]
             (then_io (mountStickyDisks w False) (startDaemonAndBuilder w)) \<and>
         snd (main_ts_main w) = snd (startDaemonAndBuilder w)"
proof (intro conjI)
  show "getEnvVar w ''VSOCK_PORT'' = throw_io (EnvVarNotSet ''VSOCK_PORT'')"
    by (rule getEnvVar_unset[OF assms])
  show "loadStickyDisks w = ([vsock_warning], Inr False)"
    by (rule loadStickyDisks_unset[OF assms])
  show "main_ts_main w =
          after [vsock_warning] (then_io (mountStickyDisks w False) (startDaemonAndBuilder w))"
    by (simp add: main_ts_main_def bind_io_def loadStickyDisks_unset[OF assms])
  show "snd (main_ts_main w) = snd (startDaemonAndBuilder w)"
    by (rule snd_main_ts_main)
qed

lemma no_vsock_world_env: "env no_vsock_world ''VSOCK_PORT'' = None"
  by (simp add: no_vsock_world_def)

lemma shell_no_vsock_world: "shell no_vsock_world cmd = Inr ([], [])"
  by (simp add: no_vsock_world_def ok_world_fields)

theorem missing_vsock_port_warns_witness:
  "env no_vsock_world ''VSOCK_PORT'' = None \<and>
   loadStickyDisks no_vsock_world = ([vsock_warning], Inr False) \<and>
   snd (main_ts_main no_vsock_world) = snd (startDaemonAndBuilder no_vsock_world)"
proof -
  have h: "env no_vsock_world ''VSOCK_PORT'' = None \<or> env no_vsock_world ''VSOCK_PORT'' = Some []"
    by (simp add: no_vsock_world_env)
  show ?thesis
    using missing_vsock_port_warns[OF h] no_vsock_world_env by blast
qed

text \<open>
  Without \<open>VSOCK_PORT\<close>, in a world where everything else works, the initialization
  phase logs the warning, goes on to probe the block device, and completes.
\<close>

theorem missing_vsock_port_counterexample:
  "env no_vsock_world ''VSOCK_PORT'' = None \<and>
   snd (getEnvVar no_vsock_world ''VSOCK_PORT'') = Inl (EnvVarNotSet ''VSOCK_PORT'') \<and>
   vsock_warning \<in> set (fst (main_ts_main no_vsock_world)) \<and>
   Shell ''lsblk /dev/vdb'' \<in> set (fst (main_ts_main no_vsock_world)) \<and>
   snd (main_ts_main no_vsock_world) = Inr ()"
proof -
  have h: "env no_vsock_world ''VSOCK_PORT'' = None \<or> env no_vsock_world ''VSOCK_PORT'' = Some []"
    by (simp add: no_vsock_world_env)
  have r: "snd (startDaemonAndBuilder no_vsock_world) = Inr ()"
    by (simp add: startDaemonAndBuilder_ok[OF builds_like_ok_examples(2)])
  show ?thesis
    using r by (simp add: snd_main_ts_main fst_main_ts_main loadStickyDisks_unset[OF h]
        getEnvVar_unset[OF h] fst_mountStickyDisks no_vsock_world_env shell_no_vsock_world
        device_def)
qed


lemma loadStickyDisks_ok:
  assumes "builds_like_ok w" "env w ''VSOCK_PORT'' = Some ''9999''"
  shows "loadStickyDisks w =
    ([Spawn ''echo \"load\" | socat -t=15 - VSOCK-CONNECT:2:9999'',
      HttpPut ''http://169.254.169.254/latest/api/token'',
      HttpGet ''http://169.254.169.254/sticky_disk_loaded'',
      Log Debug ''Command result: true''], Inr True)"
proof -
  have m: "getMetadata w ''sticky_disk_loaded'' 0 =
    ([HttpPut ''http://169.254.169.254/latest/api/token'',
      HttpGet ''http://169.254.169.254/sticky_disk_loaded''], Inr ''true'')"
    using assms(1) unfolding builds_like_ok_def
    by (intro prod_eqI)
      (simp_all add: getMetadata_def mmdsIPv4Addr_def ok_world_fields run_simps snd_catch_io
        snd_bind_io)
  have r: "retryCommand 1 (getMetadata w ''sticky_disk_loaded'') =
    ([HttpPut ''http://169.254.169.254/latest/api/token'',
      HttpGet ''http://169.254.169.254/sticky_disk_loaded'',
      Log Debug ''Command result: true''], Inr ''true'')"
    by (simp add: retryCommand_def m retry_attempt_def accepted_def)
  show ?thesis
    by (intro prod_eqI)
      (simp_all add: loadStickyDisks_def sendLoadStickyDisksRequest_def getEnvVar_def assms(2)
        r run_simps snd_catch_io snd_then_io snd_bind_io)
qed

lemma finalization_state_ok:
  assumes "builds_like_ok w" "env w ''VSOCK_PORT'' = Some ''9999''"
  shows "finalization_state (fst (main_ts_main w)) = sticky_state"
proof -
  have l: "resolved (shell w ''lsblk /dev/vdb'')"
          "resolved (shell w ''sudo mkdir -p /var/lib/buildkit'')"
    using assms(1) by (simp_all add: builds_like_ok_def)
  have e: "resolved (snd (getEnvVar w ''VSOCK_PORT''))"
    by (simp add: getEnvVar_def assms(2))
  have r: "snd (retryCommand 1 (getMetadata w ''sticky_disk_loaded'')) = Inr ''true''"
    using loadStickyDisks_ok[OF assms] snd_loadStickyDisks[of w] by (auto split: if_splits)
  show ?thesis
    by (simp add: fst_main_ts_main e r l fst_mountStickyDisks
        device_def mountPoint_def loadStickyDisks_ok[OF assms]
        startDaemonAndBuilder_ok[OF assms(1)] setupBuilder_ok[OF assms(1)]
        finalization_state_def saved_env_def stateHelper_def truthy_def or_empty_def
        sticky_state_def)
qed

lemma umount_in_post_ok:
  "umount_event \<in> set (fst (main_ts_post ok_world sticky_state))"
proof -
  have f: "filter (teardown_step sticky_state) (fst (main_ts_post ok_world sticky_state)) =
             stop_event sticky_state # sticky_attempts ok_world @ [rm_event sticky_state]"
    by (simp add: teardown_main_ts_post removal_reached_def logs_completed_def
        ok_world_fields sticky_state_def)
  have "umount_event \<in> set (filter (teardown_step sticky_state)
                             (fst (main_ts_post ok_world sticky_state)))"
    unfolding f by (simp add: sticky_attempts_def ok_world_fields)
  then show ?thesis by simp
qed

theorem unmount_only_after_flag_witness:
  "umount_event \<in> set (snd (main_ts_job ok_world ok_world)) \<and>
   snd (retryCommand 1 (getMetadata ok_world ''sticky_disk_loaded'')) = Inr ''true'' \<and>
   SaveState ''isStickyDisksEnabled'' ''true'' \<in> set (fst (main_ts_job ok_world ok_world)) \<and>
   fst (main_ts_job ok_world ok_world) =
     [Spawn ''echo \"load\" | socat -t=15 - VSOCK-CONNECT:2:9999'',
      HttpPut ''http://169.254.169.254/latest/api/token'',
      HttpGet ''http://169.254.169.254/sticky_disk_loaded'',
      Log Debug ''Command result: true'',
      Shell ''lsblk /dev/vdb'',
      SaveState ''isStickyDisksEnabled'' ''true'',
      Shell ''sudo mkdir -p /var/lib/buildkit'',
      Shell ''sudo mount /dev/vdb /var/lib/buildkit'',
      Log Debug ''/dev/vdb has been mounted to /var/lib/buildkit''] @
     fst (startDaemonAndBuilder ok_world)"
proof -
  have e: "env ok_world ''VSOCK_PORT'' = Some ''9999''" by (simp add: ok_world_fields)
  have h: "umount_event \<in> set (snd (main_ts_job ok_world ok_world))"
    by (simp add: main_ts_job_def finalization_state_ok[OF builds_like_ok_examples(1) e]
        umount_in_post_ok)
  have l: "fst (loadStickyDisks ok_world) =
     [Spawn ''echo \"load\" | socat -t=15 - VSOCK-CONNECT:2:9999'',
      HttpPut ''http://169.254.169.254/latest/api/token'',
      HttpGet ''http://169.254.169.254/sticky_disk_loaded'',
      Log Debug ''Command result: true'']"
    by (simp add: loadStickyDisks_ok[OF builds_like_ok_examples(1) e])
  from unmount_only_after_flag[OF h] h show ?thesis
    by (simp add: l ok_world_fields device_def mountPoint_def)
qed

text \<open>
  The mount fails in the initialization phase (a warning, the job carries on), and the
  finalization phase attempts the unmount all the same.
\<close>

theorem unmount_after_failed_mount_counterexample:
  "shell mount_fails_world ''sudo mount /dev/vdb /var/lib/buildkit'' =
     Inl (External ''mount: wrong fs type'') \<and>
   Shell ''sudo mount /dev/vdb /var/lib/buildkit'' \<in>
     set (fst (main_ts_job mount_fails_world ok_world)) \<and>
   umount_event \<in> set (snd (main_ts_job mount_fails_world ok_world))"
proof -
  have e: "env mount_fails_world ''VSOCK_PORT'' = Some ''9999''"
    by (simp add: mount_fails_world_def ok_world_fields)
  have b: "builds_like_ok mount_fails_world" by (rule builds_like_ok_examples(3))
  have l: "resolved (shell mount_fails_world ''lsblk /dev/vdb'')"
          "resolved (shell mount_fails_world ''sudo mkdir -p /var/lib/buildkit'')"
    using b by (simp_all add: builds_like_ok_def)
  have g: "resolved (snd (getEnvVar mount_fails_world ''VSOCK_PORT''))"
    by (simp add: getEnvVar_def e)
  have r: "snd (retryCommand 1 (getMetadata mount_fails_world ''sticky_disk_loaded'')) =
             Inr ''true''"
    using loadStickyDisks_ok[OF b e] snd_loadStickyDisks[of mount_fails_world]
    by (auto split: if_splits)
  have m: "Shell ''sudo mount /dev/vdb /var/lib/buildkit'' \<in>
             set (fst (main_ts_main mount_fails_world))"
    using l by (simp add: fst_main_ts_main g r fst_mountStickyDisks
        device_def mountPoint_def)
  have f: "shell mount_fails_world ''sudo mount /dev/vdb /var/lib/buildkit'' =
             Inl (External ''mount: wrong fs type'')"
    by (simp add: mount_fails_world_def)
  show ?thesis
    using m f by (simp add: main_ts_job_def finalization_state_ok[OF b e] umount_in_post_ok)
qed

section \<open>Facts about the provisioning variant\<close>

lemma fst_request [simp]: "fst (request ev r) = [ev, Took (fst r)]"
  by (simp add: request_def)

lemma snd_request [simp]: "snd (request ev r) = snd r"
  by (simp add: request_def)

lemma fst_finally_io [simp]: "fst (finally_io m k) = fst m @ fst k"
  by (simp add: finally_io_def)

lemma snd_finally_io [simp]: "snd (finally_io m k) = snd m"
  by (simp add: finally_io_def)

lemma default_baseURL:
  "env w ''BUILDER_URL'' = None \<Longrightarrow> baseURL w = ''https://d04fa050a7b2.ngrok.app/build_tasks''"
  by (simp add: baseURL_def)

lemma buildFullPath_default:
  "buildFullPath ''https://d04fa050a7b2.ngrok.app/build_tasks'' [] =
     ''https://d04fa050a7b2.ngrok.app/build_tasks''"
  "buildFullPath ''https://d04fa050a7b2.ngrok.app/build_tasks'' ''/t1'' =
     ''https://d04fa050a7b2.ngrok.app/build_tasks/t1''"
  "buildFullPath ''https://d04fa050a7b2.ngrok.app/build_tasks'' ''/t1/abandon'' =
     ''https://d04fa050a7b2.ngrok.app/build_tasks/t1/abandon''"
  "buildFullPath ''https://d04fa050a7b2.ngrok.app/build_tasks'' ''//abandon'' = ''//abandon''"
  by (simp_all add: buildFullPath_def isAbsoluteURL_def combineURLs_def strip_slashes_def
      strip_slash_def is_letter_def)

lemma no_capacity_world_fields:
  "env no_capacity_world = [''VSOCK_PORT'' \<mapsto> ''9999'']"
  "create_task no_capacity_world =
     (10, Inr \<lparr> task_id = ''t1'', client_key = ''k'', client_ca_certificate = ''ca'',
                root_ca_certificate = ''root'' \<rparr>)"
  "task_status no_capacity_world =
     (\<lambda>_ _. (60000, Inr \<lparr> ec2_instance = None, status_json = ''{}'' \<rparr>))"
  "http_post no_capacity_world =
     (\<lambda>url. if url = ''//abandon'' then (5, Inl (External ''getaddrinfo ENOTFOUND abandon''))
           else (10, Inr ''{}''))"
  by (simp_all add: no_capacity_world_def ok_world_def)

text \<open>
  C3, on a backend that creates the task \<open>t1\<close> and never assigns an instance.  The
  loop ends after the first status query, 60200 ms on its clock.  The state-helper
  export of the task id is empty in the initialization phase, so the abandon request
  is \<open>client.post('//abandon')\<close>: axios takes it for an absolute URL and does not put
  the base URL in front, and the request goes to a host called \<open>abandon\<close>, not to the
  backend.  No request to abandon \<open>t1\<close> (the URL that the local \<open>taskId\<close> would have
  given) is made.  The request fails, and its error, not
  \<open>Failed to get EC2 instance within 60 seconds\<close>, is what \<open>getBuildkitdAddr\<close> throws.
\<close>

theorem abandon_request_misses_task:
  "blacksmithBuildTaskId (stateHelper (env no_capacity_world)) = [] \<and>
   getBuildkitdAddr no_capacity_world (stateHelper (env no_capacity_world)) =
     ([Call ''setTimeout'' [''controller.abort'', ''30000''],
       HttpPost ''https://d04fa050a7b2.ngrok.app/build_tasks'', Took 10,
       SaveState ''blacksmithBuildTaskId'' ''t1'',
       SaveState ''blacksmithClientKey'' ''k'',
       SaveState ''blacksmithClientCaCertificate'' ''ca'',
       SaveState ''blacksmithRootCaCertificate'' ''root'',
       HttpGet ''https://d04fa050a7b2.ngrok.app/build_tasks/t1'', Took 60000,
       Log Info ''Got response from Blacksmith builder t1: {}'',
       Sleep 200,
       HttpPost ''//abandon'', Took 5,
       Call ''clearTimeout'' []],
      Inl (External ''getaddrinfo ENOTFOUND abandon'')) \<and>
   buildFullPath (baseURL no_capacity_world) ''/t1/abandon'' =
     ''https://d04fa050a7b2.ngrok.app/build_tasks/t1/abandon'' \<and>
   HttpPost ''https://d04fa050a7b2.ngrok.app/build_tasks/t1/abandon'' \<notin>
     set (fst (getBuildkitdAddr no_capacity_world (stateHelper (env no_capacity_world))))"
proof -
  have sh: "blacksmithBuildTaskId (stateHelper (env no_capacity_world)) = []"
    by (simp add: stateHelper_def no_capacity_world_fields or_empty_def)
  have b: "baseURL no_capacity_world = ''https://d04fa050a7b2.ngrok.app/build_tasks''"
    by (simp add: default_baseURL no_capacity_world_fields)
  have p: "pollLoop no_capacity_world ''t1'' 0 0 =
     ([HttpGet ''https://d04fa050a7b2.ngrok.app/build_tasks/t1'', Took 60000,
       Log Info ''Got response from Blacksmith builder t1: {}'', Sleep 200], Inr None)"
    by (simp add: status_url_def b buildFullPath_default no_capacity_world_fields return_io_def)
  have g: "getBuildkitdAddr no_capacity_world (stateHelper (env no_capacity_world)) =
     ([Call ''setTimeout'' [''controller.abort'', ''30000''],
       HttpPost ''https://d04fa050a7b2.ngrok.app/build_tasks'', Took 10,
       SaveState ''blacksmithBuildTaskId'' ''t1'',
       SaveState ''blacksmithClientKey'' ''k'',
       SaveState ''blacksmithClientCaCertificate'' ''ca'',
       SaveState ''blacksmithRootCaCertificate'' ''root'',
       HttpGet ''https://d04fa050a7b2.ngrok.app/build_tasks/t1'', Took 60000,
       Log Info ''Got response from Blacksmith builder t1: {}'',
       Sleep 200,
       HttpPost ''//abandon'', Took 5,
       Call ''clearTimeout'' []],
      Inl (External ''getaddrinfo ENOTFOUND abandon''))"
    by (intro prod_eqI)
      (simp_all add: getBuildkitdAddr_def client_post_def sh b p buildFullPath_default
        no_capacity_world_fields(2-4) run_simps snd_then_io snd_bind_io snd_ignore_io
        del: pollLoop.simps)
  show ?thesis
    unfolding g by (simp add: sh b buildFullPath_default)
qed

lemma hung_query_world_fields:
  "env hung_query_world ''BUILDER_URL'' = None"
  "create_task hung_query_world =
     (10, Inr \<lparr> task_id = ''t1'', client_key = ''k'', client_ca_certificate = ''ca'',
                root_ca_certificate = ''root'' \<rparr>)"
  "task_status hung_query_world =
     (\<lambda>_ _. (100000, Inr \<lparr> ec2_instance = Some ''10.0.0.1'', status_json = ''{}'' \<rparr>))"
  by (simp_all add: hung_query_world_def ok_world_def)

text \<open>
  C8, on a backend whose first status query takes 100000 ms.  The abort timer is armed
  for 30000 ms, but no request carries its signal: the query is not cut off, the loop
  waits the whole 100000 ms for it, and the function returns the address that the late
  answer brought.
\<close>

theorem hung_status_query_not_aborted:
  "getBuildkitdAddr hung_query_world (stateHelper (env hung_query_world)) =
     ([Call ''setTimeout'' [''controller.abort'', ''30000''],
       HttpPost ''https://d04fa050a7b2.ngrok.app/build_tasks'', Took 10,
       SaveState ''blacksmithBuildTaskId'' ''t1'',
       SaveState ''blacksmithClientKey'' ''k'',
       SaveState ''blacksmithClientCaCertificate'' ''ca'',
       SaveState ''blacksmithRootCaCertificate'' ''root'',
       HttpGet ''https://d04fa050a7b2.ngrok.app/build_tasks/t1'', Took 100000,
       Log Info ''Got response from Blacksmith builder t1: {}'',
       Log Info ''Got EC2 instance IP after 100000 ms'',
       Call ''clearTimeout'' []],
      Inr ''tcp://10.0.0.1:4242'')"
  by (intro prod_eqI)
    (simp_all add: getBuildkitdAddr_def hung_query_world_fields baseURL_def status_url_def
      buildFullPath_default run_simps snd_then_io snd_bind_io digit_char_def)

end
